theory Spec2Isabelle
  imports Complex_Main
begin

section \<open>Numbers and vectors\<close>

text \<open>
  JavaScript numbers are modelled as real numbers: \<open>+\<close>, \<open>*\<close>, \<open>Math.sqrt\<close>,
  \<open>Math.cos\<close> and \<open>Math.sin\<close> are the exact operations, without rounding. A division
  whose divisor is zero yields \<open>Infinity\<close> or \<open>NaN\<close> in JavaScript; the model returns
  the value \<open>NonFinite\<close> there instead of a number. \<open>TypeError\<close> is what JavaScript
  throws when a property of \<open>undefined\<close> or \<open>null\<close> is read.
\<close>

datatype error = NonFinite | TypeError

text \<open>
  \<open>Vector3\<close> of three.js, with the methods the simulation calls. Each method is written as
  three.js defines it: \<open>divideScalar(s)\<close> is \<open>multiplyScalar(1 / s)\<close>, and
  \<open>normalize()\<close> is \<open>divideScalar(length() || 1)\<close>, so that the zero vector is
  normalised to itself.
\<close>

datatype Vector3 = Vector3 (vx: real) (vy: real) (vz: real)

definition lengthV :: "Vector3 \<Rightarrow> real" where
  "lengthV v = sqrt (vx v * vx v + vy v * vy v + vz v * vz v)"

definition multiplyScalar :: "Vector3 \<Rightarrow> real \<Rightarrow> Vector3" where
  "multiplyScalar v s = Vector3 (vx v * s) (vy v * s) (vz v * s)"

definition divideScalar :: "Vector3 \<Rightarrow> real \<Rightarrow> error + Vector3" where
  "divideScalar v s = (if s = 0 then Inl NonFinite else Inr (multiplyScalar v (1 / s)))"

definition normalizeV :: "Vector3 \<Rightarrow> Vector3" where
  "normalizeV v = multiplyScalar v (1 / (if lengthV v = 0 then 1 else lengthV v))"

definition addScaledVector :: "Vector3 \<Rightarrow> Vector3 \<Rightarrow> real \<Rightarrow> Vector3" where
  "addScaledVector u v s = Vector3 (vx u + vx v * s) (vy u + vy v * s) (vz u + vz v * s)"

definition subVectors :: "Vector3 \<Rightarrow> Vector3 \<Rightarrow> Vector3" where
  "subVectors a b = Vector3 (vx a - vx b) (vy a - vy b) (vz a - vz b)"

definition crossVectors :: "Vector3 \<Rightarrow> Vector3 \<Rightarrow> Vector3" where
  "crossVectors a b =
     Vector3 (vy a * vz b - vz a * vy b) (vz a * vx b - vx a * vz b) (vx a * vy b - vy a * vx b)"

definition dot :: "Vector3 \<Rightarrow> Vector3 \<Rightarrow> real" where
  "dot a b = vx a * vx b + vy a * vy b + vz a * vz b"

definition distanceToSquared :: "Vector3 \<Rightarrow> Vector3 \<Rightarrow> real" where
  "distanceToSquared a b =
     (let dx = vx a - vx b; dy = vy a - vy b; dz = vz a - vz b in dx * dx + dy * dy + dz * dz)"

definition distanceTo :: "Vector3 \<Rightarrow> Vector3 \<Rightarrow> real" where
  "distanceTo a b = sqrt (distanceToSquared a b)"

text \<open>Reading \<open>xs[i]\<close> of a JavaScript array: \<open>undefined\<close> outside the array.\<close>

definition jsIndex :: "'a list \<Rightarrow> int \<Rightarrow> 'a option" where
  "jsIndex xs i = (if 0 \<le> i \<and> i < int (length xs) then Some (xs ! nat i) else None)"

section \<open>TrailProvider\<close>

text \<open>
  The state of \<open>TrailProvider\<close> is an object from body keys to arrays of positions, a map
  here. \<open>addTrailPoint\<close> and \<open>clearTrail\<close> are the two state updaters.
\<close>

type_synonym key = string

type_synonym trails = "key \<rightharpoonup> Vector3 list"

definition addTrailPoint :: "key \<Rightarrow> Vector3 \<Rightarrow> trails \<Rightarrow> trails" where
  "addTrailPoint k position prevTrails =
     (let trail = (case prevTrails k of None \<Rightarrow> [] | Some t \<Rightarrow> t);
          newTrail = (if length trail \<ge> 300 then drop 1 trail else trail);
          lastPoint = jsIndex newTrail (int (length newTrail) - 1)
      in case lastPoint of
           None \<Rightarrow> prevTrails(k \<mapsto> newTrail @ [position])
         | Some l \<Rightarrow>
             if distanceToSquared l position > 1
             then prevTrails(k \<mapsto> newTrail @ [position])
             else prevTrails)"

definition clearTrail :: "key \<Rightarrow> trails \<Rightarrow> trails" where
  "clearTrail k prevTrails = prevTrails(k := None)"

text \<open>A sequence of calls of the two updaters, applied from left to right.\<close>

datatype trailCall = AddTrailPoint key Vector3 | ClearTrail key

fun runTrailCall :: "trailCall \<Rightarrow> trails \<Rightarrow> trails" where
  "runTrailCall (AddTrailPoint k p) t = addTrailPoint k p t"
| "runTrailCall (ClearTrail k) t = clearTrail k t"

fun runTrailCalls :: "trailCall list \<Rightarrow> trails \<Rightarrow> trails" where
  "runTrailCalls [] t = t"
| "runTrailCalls (c # cs) t = runTrailCalls cs (runTrailCall c t)"

definition trailsBounded :: "trails \<Rightarrow> bool" where
  "trailsBounded t = (\<forall>k. case t k of None \<Rightarrow> True | Some ps \<Rightarrow> length ps \<le> 300)"

section \<open>Constants and the initial-state generator\<close>

definition GRAVITATIONAL_CONSTANT :: real where
  "GRAVITATIONAL_CONSTANT = 66743 / 10 ^ 15"

definition SCALE_FACTOR :: real where
  "SCALE_FACTOR = 1 / 10000"

definition SPAWN_RADIUS :: real where
  "SPAWN_RADIUS = 250"

definition SUN_RADIUS :: real where
  "SUN_RADIUS = 15"

text \<open>\<open>Math.round\<close> rounds half up, as \<^const>\<open>round\<close> does.\<close>

definition SUN_MASS :: real where
  "SUN_MASS = real_of_int (round ((4 / 3) * pi * SUN_RADIUS ^ 3 * 1410)) / 100"

text \<open>
  \<open>Math.random()\<close> is modelled by an explicit source of draws: the sequence of the values
  that the coming calls return. A call takes the first one.
\<close>

type_synonym rng = "nat \<Rightarrow> real"

definition random :: "rng \<Rightarrow> real \<times> rng" where
  "random r = (r 0, \<lambda>n. r (Suc n))"

definition jsDivide :: "real \<Rightarrow> real \<Rightarrow> error + real" where
  "jsDivide a b = (if b = 0 then Inl NonFinite else Inr (a / b))"

definition Math_sqrt :: "real \<Rightarrow> error + real" where
  "Math_sqrt a = (if a < 0 then Inl NonFinite else Inr (sqrt a))"

definition bindE :: "error + 'a \<Rightarrow> ('a \<Rightarrow> error + 'b) \<Rightarrow> error + 'b" where
  "bindE m f = (case m of Inl e \<Rightarrow> Inl e | Inr a \<Rightarrow> f a)"

definition calculateInitialPosition :: "bool \<Rightarrow> rng \<Rightarrow> Vector3 \<times> rng" where
  "calculateInitialPosition isEntry r0 =
     (let (u1, r1) = random r0;
          theta = u1 * pi * 2;
          (radius, r2) =
            (if isEntry then (SPAWN_RADIUS * 1.5, r1)
             else (let (u2, r') = random r1 in (u2 * SPAWN_RADIUS + SUN_RADIUS * 3, r')));
          x = cos theta * radius;
          (u3, r3) = random r2;
          y = u3 * 10;
          z = sin theta * radius
      in (Vector3 x y z, r3))"

definition calculateInitialVelocity :: "Vector3 \<Rightarrow> bool \<Rightarrow> error + Vector3" where
  "calculateInitialVelocity pos respawn =
     (let radialVector = pos;
          distance = lengthV radialVector
      in bindE (jsDivide (GRAVITATIONAL_CONSTANT * SUN_MASS) distance) (\<lambda>q.
         bindE (Math_sqrt q) (\<lambda>orbitalSpeed.
           let upVector = Vector3 0 1 0;
               velocity = multiplyScalar
                 (multiplyScalar (normalizeV (crossVectors radialVector upVector)) orbitalSpeed)
                 20000
           in Inr (if respawn then multiplyScalar velocity 0.75 else velocity))))"

section \<open>Rigid bodies, the component state and collision events\<close>

text \<open>
  A rigid body of the physics engine, by the values its methods return: \<open>mass()\<close>,
  \<open>translation()\<close>, \<open>linvel()\<close>, \<open>angvel()\<close>, \<open>isDynamic()\<close>, \<open>isSleeping()\<close>, and its
  \<open>userData\<close> object, which may be missing. Bodies are objects shared by reference between the
  physics world and the collision events, so they live in a store addressed by handles.
\<close>

datatype bodyType = Sun | Moon | Earth | Planet

text \<open>
  The \<open>userData\<close> of the orbiting bodies is \<open>{ type, key }\<close>, that of the Sun is
  \<open>{ type: 'Sun' }\<close>, without a key. An \<open>undefined\<close> key used as a property name is the
  text \<open>undefined\<close>.
\<close>

record userData =
  type :: bodyType
  key :: "key option"

definition propertyName :: "key option \<Rightarrow> key" where
  "propertyName k = (case k of None \<Rightarrow> ''undefined'' | Some n \<Rightarrow> n)"

record rigidBody =
  mass :: real
  translation :: Vector3
  linvel :: Vector3
  angvel :: Vector3
  isDynamic :: bool
  isSleeping :: bool
  userData :: "userData option"

type_synonym handle = nat

type_synonym store = "handle \<Rightarrow> rigidBody"

text \<open>
  The setters of the physics engine are the assignments their names say; a true \<open>wakeUp\<close>
  argument wakes the body. \<open>applyImpulse\<close> acts on dynamic bodies only and changes the linear
  velocity by the impulse times the inverse mass.
\<close>

definition wake :: "bool \<Rightarrow> rigidBody \<Rightarrow> rigidBody" where
  "wake wakeUp b = (if wakeUp then b\<lparr>isSleeping := False\<rparr> else b)"

definition setLinvel :: "Vector3 \<Rightarrow> bool \<Rightarrow> rigidBody \<Rightarrow> rigidBody" where
  "setLinvel v wakeUp b = wake wakeUp (b\<lparr>linvel := v\<rparr>)"

definition setTranslation :: "Vector3 \<Rightarrow> bool \<Rightarrow> rigidBody \<Rightarrow> rigidBody" where
  "setTranslation v wakeUp b = wake wakeUp (b\<lparr>translation := v\<rparr>)"

definition setAngvel :: "Vector3 \<Rightarrow> bool \<Rightarrow> rigidBody \<Rightarrow> rigidBody" where
  "setAngvel v wakeUp b = wake wakeUp (b\<lparr>angvel := v\<rparr>)"

definition applyImpulse :: "Vector3 \<Rightarrow> bool \<Rightarrow> rigidBody \<Rightarrow> rigidBody" where
  "applyImpulse impulse wakeUp b =
     (if isDynamic b
      then wake wakeUp
             (b\<lparr>linvel := addScaledVector (linvel b) impulse (if mass b = 0 then 0 else 1 / mass b)\<rparr>)
      else b)"

text \<open>
  An explosion of \<open>ExplosionProvider\<close>. The \<open>id\<close> is a draw of \<open>Math.random()\<close>; the model
  takes it when \<open>triggerExplosion\<close> is called.
\<close>

record explosion =
  ex_position :: Vector3
  ex_lookAt :: Vector3
  ex_id :: real

text \<open>
  The state that the collision handler reads and writes: the rigid bodies, the explosions of
  \<open>ExplosionProvider\<close>, the trails of \<open>TrailProvider\<close> and the random source.
\<close>

record sim =
  bodies :: store
  explosions :: "explosion list"
  trails :: trails
  rng :: rng

definition updateBody :: "handle \<Rightarrow> (rigidBody \<Rightarrow> rigidBody) \<Rightarrow> sim \<Rightarrow> sim" where
  "updateBody h f s = s\<lparr>bodies := (bodies s)(h := f (bodies s h))\<rparr>"

definition triggerExplosion :: "Vector3 \<Rightarrow> Vector3 \<Rightarrow> sim \<Rightarrow> sim" where
  "triggerExplosion pos look s =
     (let (u, r) = random (rng s)
      in s\<lparr>explosions := explosions s @ [\<lparr>ex_position = pos, ex_lookAt = look, ex_id = u\<rparr>],
           rng := r\<rparr>)"

text \<open>
  The options of \<open>createBodyData\<close> (\<open>newPlanet\<close> in \<open>Planets.jsx\<close>); each may be absent.
  The result is the body data; its \<open>userData\<close> repeats the key.
\<close>

record options =
  respawn :: "bool option"
  typeOverride :: "bodyType option"
  scaleOverride :: "real option"

record bodyData =
  bd_key :: key
  bd_position :: Vector3
  bd_linearVelocity :: Vector3
  bd_scale :: real
  bd_userData :: userData

text \<open>
  \<open>toStr\<close> stands for \<open>Number.prototype.toString\<close>: \<open>toStr u radix\<close> is the text of the
  number \<open>u\<close> in that radix. \<open>substr(start, len)\<close> is written out on lists.
\<close>

definition substr :: "string \<Rightarrow> nat \<Rightarrow> nat \<Rightarrow> string" where
  "substr str start len = take len (drop start str)"

definition bodyDataWith ::
  "key \<Rightarrow> options \<Rightarrow> rng \<Rightarrow> error + (bodyData \<times> rng)" where
  "bodyDataWith k opts r1 =
     (let resp = (case respawn opts of None \<Rightarrow> False | Some b \<Rightarrow> b);
          (pos, r2) = calculateInitialPosition resp r1
      in bindE (calculateInitialVelocity pos resp) (\<lambda>linearVelocity.
           let (scale, r3) =
                 (case scaleOverride opts of
                    Some sc \<Rightarrow> (sc, r2)
                  | None \<Rightarrow> (let (u, r') = random r2 in (0.5 + u * 1.5, r')));
               ty = (case typeOverride opts of None \<Rightarrow> Planet | Some t \<Rightarrow> t)
           in Inr (\<lparr>bd_key = k, bd_position = pos, bd_linearVelocity = linearVelocity,
                    bd_scale = scale, bd_userData = \<lparr>type = ty, key = Some k\<rparr>\<rparr>, r3)))"

definition createBodyData ::
  "(real \<Rightarrow> nat \<Rightarrow> string) \<Rightarrow> options \<Rightarrow> rng \<Rightarrow> error + (bodyData \<times> rng)" where
  "createBodyData toStr opts r0 =
     (let (u, r1) = random r0
      in bodyDataWith (''instance_'' @ substr (toStr u 36) 2 9) opts r1)"

definition newPlanet ::
  "(real \<Rightarrow> nat \<Rightarrow> string) \<Rightarrow> options \<Rightarrow> rng \<Rightarrow> error + (bodyData \<times> rng)" where
  "newPlanet toStr opts r0 =
     (let (u, r1) = random r0
      in bodyDataWith (''instance_'' @ toStr u 10) opts r1)"

text \<open>
  A collision event: the contact manifold (its \<open>solverContactPoint(i)\<close>, \<open>null\<close> where there
  is none) and the two parties, each of which may lack its \<open>rigidBody\<close>.
\<close>

type_synonym manifold = "nat \<Rightarrow> Vector3 option"

record collisionEvent =
  manifold :: "manifold option"
  target :: "handle option option"
  other :: "handle option option"

definition validDynamicTypes :: "bodyType list" where
  "validDynamicTypes = [Planet, Moon, Earth]"

definition combineVelocity :: "Vector3 \<Rightarrow> real \<Rightarrow> Vector3 \<Rightarrow> real \<Rightarrow> error + Vector3" where
  "combineVelocity targetVelocity targetMass otherVelocity otherMass =
     (let combinedMass = targetMass + otherMass
      in divideScalar
           (addScaledVector (addScaledVector (Vector3 0 0 0) targetVelocity targetMass)
              otherVelocity otherMass)
           combinedMass)"

section \<open>The collision handler\<close>

text \<open>
  The respawn of the destroyed body, shared by the two handlers below: the body keeps its
  \<open>userData\<close> object, of which only the key is assigned; position and velocity are set from
  the new body data. \<open>wakeUp\<close> is the second argument of the setters.
\<close>

definition respawnTarget :: "handle \<Rightarrow> userData \<Rightarrow> bodyData \<Rightarrow> bool \<Rightarrow> sim \<Rightarrow> sim" where
  "respawnTarget targetRigidBody targetData newBodyData wakeUp s =
     (let s1 = updateBody targetRigidBody
                 (\<lambda>b. b\<lparr>userData := Some (targetData\<lparr>key := Some (bd_key newBodyData)\<rparr>)\<rparr>) s;
          s2 = updateBody targetRigidBody (setTranslation (bd_position newBodyData) wakeUp) s1
      in updateBody targetRigidBody (setLinvel (bd_linearVelocity newBodyData) wakeUp) s2)"

text \<open>
  \<open>handleCollision\<close> of the consolidated component (\<open>SolarSystemCore\<close>). Every guard of the
  source is a branch that returns the state as it is. The two \<open>userData\<close> objects are read
  once, after the guard that they exist: nothing assigns to them before the respawn.
\<close>

definition handleCollision ::
  "(real \<Rightarrow> nat \<Rightarrow> string) \<Rightarrow> collisionEvent \<Rightarrow> sim \<Rightarrow> error + sim" where
  "handleCollision toStr ev s =
     (case (manifold ev, target ev, other ev) of
        (Some mf, Some (Some targetRigidBody), Some (Some otherRigidBody)) \<Rightarrow>
          (case (userData (bodies s targetRigidBody), userData (bodies s otherRigidBody)) of
             (Some targetData, Some otherData) \<Rightarrow>
               (let targetMass = mass (bodies s targetRigidBody);
                    otherMass = mass (bodies s otherRigidBody)
                in if otherMass > targetMass \<and> targetMass > 0 then
                     (case mf 0 of
                        None \<Rightarrow> Inr s
                      | Some collisionPoint \<Rightarrow>
                          (let targetPosition = translation (bodies s targetRigidBody);
                               otherPosition = translation (bodies s otherRigidBody);
                               targetVelocity = linvel (bodies s targetRigidBody);
                               otherVelocity = linvel (bodies s otherRigidBody)
                           in bindE (combineVelocity targetVelocity targetMass otherVelocity otherMass)
                                (\<lambda>combinedVelocity.
                                  let s1 = (if type otherData \<in> set validDynamicTypes
                                            then updateBody otherRigidBody
                                                   (setLinvel combinedVelocity True) s
                                            else s);
                                      s2 = triggerExplosion collisionPoint targetPosition s1;
                                      s3 = (if type otherData = Moon
                                            then triggerExplosion collisionPoint otherPosition s2
                                            else s2);
                                      s4 = s3\<lparr>trails := clearTrail (propertyName (key targetData))
                                                         (trails s3)\<rparr>
                                  in bindE (createBodyData toStr
                                              \<lparr>respawn = Some True, typeOverride = Some Planet,
                                               scaleOverride = None\<rparr> (rng s4))
                                       (\<lambda>(newBodyData, r).
                                         let s5 = respawnTarget targetRigidBody targetData
                                                    newBodyData True (s4\<lparr>rng := r\<rparr>);
                                             (u, r') = random (rng s5)
                                         in Inr (updateBody targetRigidBody
                                                   (setAngvel (Vector3 0 (u * 0.2 - 0.1) 0) True)
                                                   (s5\<lparr>rng := r'\<rparr>))))))
                   else Inr s)
           | _ \<Rightarrow> Inr s)
      | _ \<Rightarrow> Inr s)"

text \<open>
  \<open>handleCollision\<close> of \<open>Planets.jsx\<close>. It guards the two rigid bodies only: reading a
  property of a missing party, manifold, contact point or \<open>userData\<close> throws. It tests
  \<open>otherMass > targetMass\<close> alone, calls the setters without \<open>wakeUp\<close>, and leaves the
  angular velocity. The result \<open>Inl\<close> says that the handler threw or met a non-finite
  number; the state it leaves behind then is not modelled.
\<close>

definition handleCollision_Planets ::
  "(real \<Rightarrow> nat \<Rightarrow> string) \<Rightarrow> collisionEvent \<Rightarrow> sim \<Rightarrow> error + sim" where
  "handleCollision_Planets toStr ev s =
     (case (target ev, other ev) of
        (Some targetBody, Some otherBody) \<Rightarrow>
          (case (targetBody, otherBody) of
             (Some targetRigidBody, Some otherRigidBody) \<Rightarrow>
               (let targetMass = mass (bodies s targetRigidBody);
                    otherMass = mass (bodies s otherRigidBody)
                in if otherMass > targetMass then
                     (case manifold ev of
                        None \<Rightarrow> Inl TypeError
                      | Some mf \<Rightarrow>
                          (case mf 0 of
                             None \<Rightarrow> Inl TypeError
                           | Some collisionPoint \<Rightarrow>
                               (let targetPosition = translation (bodies s targetRigidBody);
                                    otherPosition = translation (bodies s otherRigidBody);
                                    targetVelocity = linvel (bodies s targetRigidBody);
                                    otherVelocity = linvel (bodies s otherRigidBody)
                                in bindE (combineVelocity targetVelocity targetMass
                                            otherVelocity otherMass)
                                     (\<lambda>combinedVelocity.
                                       case userData (bodies s otherRigidBody) of
                                         None \<Rightarrow> Inl TypeError
                                       | Some otherData \<Rightarrow>
                                           (let s1 = (if type otherData \<in> set validDynamicTypes
                                                      then updateBody otherRigidBody
                                                             (setLinvel combinedVelocity False) s
                                                      else s);
                                                s2 = triggerExplosion collisionPoint
                                                       targetPosition s1;
                                                s3 = (if type otherData = Moon
                                                      then triggerExplosion collisionPoint
                                                             otherPosition s2
                                                      else s2)
                                            in case userData (bodies s3 targetRigidBody) of
                                                 None \<Rightarrow> Inl TypeError
                                               | Some targetData \<Rightarrow>
                                                   (let s4 = s3\<lparr>trails :=
                                                               clearTrail
                                                                 (propertyName (key targetData))
                                                                 (trails s3)\<rparr>
                                                    in bindE (newPlanet toStr
                                                                \<lparr>respawn = Some True,
                                                                 typeOverride = None,
                                                                 scaleOverride = None\<rparr>
                                                                (rng s4))
                                                         (\<lambda>(newPlanetData, r).
                                                           Inr (respawnTarget targetRigidBody
                                                                  targetData newPlanetData False
                                                                  (s4\<lparr>rng := r\<rparr>)))))))))
                   else Inr s)
           | _ \<Rightarrow> Inr s)
      | _ \<Rightarrow> Inl TypeError)"

section \<open>The gravity integrator\<close>

text \<open>
  \<open>world.bodies\<close> is the set of the rigid bodies of the physics world, walked by
  \<open>forEach\<close> in the order of its handles; both \<open>world\<close> and \<open>world.bodies\<close> may be
  missing.
\<close>

record world =
  world_bodies :: "handle list option"

fun forEachE :: "('a \<Rightarrow> 's \<Rightarrow> error + 's) \<Rightarrow> 'a list \<Rightarrow> 's \<Rightarrow> error + 's" where
  "forEachE f [] s = Inr s"
| "forEachE f (a # as) s = (case f a s of Inl e \<Rightarrow> Inl e | Inr s' \<Rightarrow> forEachE f as s')"

text \<open>The inner callback: the impulse that \<open>otherBody\<close> gives to \<open>currentBody\<close>.\<close>

definition gravityPair ::
  "handle \<Rightarrow> real \<Rightarrow> Vector3 \<Rightarrow> handle \<Rightarrow> store \<Rightarrow> error + store" where
  "gravityPair currentBody currentMass currentPosition otherBody st =
     (if currentBody = otherBody \<or> isSleeping (st otherBody) \<or> \<not> isDynamic (st otherBody)
      then Inr st
      else let otherMass = mass (st otherBody)
           in if otherMass = 0 then Inr st
              else let otherPosition = translation (st otherBody);
                       distance = distanceTo currentPosition otherPosition
                   in if distance = 0 then Inr st
                      else bindE (jsDivide (GRAVITATIONAL_CONSTANT * currentMass * otherMass)
                                    ((distance * SCALE_FACTOR) ^ 2))
                             (\<lambda>forceMagnitude.
                               let impulseVector =
                                     multiplyScalar
                                       (normalizeV (subVectors otherPosition currentPosition))
                                       forceMagnitude
                               in Inr (st(currentBody :=
                                           applyImpulse impulseVector True (st currentBody)))))"

text \<open>
  The outer callback. Its first guard reads \<open>currentBody.isSleeping\<close> without calling it;
  \<open>sleepingGuard\<close> is the truth value of that expression for the body.
\<close>

definition gravityBody ::
  "(rigidBody \<Rightarrow> bool) \<Rightarrow> handle list \<Rightarrow> handle \<Rightarrow> store \<Rightarrow> error + store" where
  "gravityBody sleepingGuard hs currentBody st =
     (if sleepingGuard (st currentBody) \<or> \<not> isDynamic (st currentBody) then Inr st
      else let currentMass = mass (st currentBody)
           in if currentMass = 0 then Inr st
              else let currentPosition = translation (st currentBody)
                   in forEachE (gravityPair currentBody currentMass currentPosition) hs st)"

definition gravityPass ::
  "(rigidBody \<Rightarrow> bool) \<Rightarrow> world option \<Rightarrow> store \<Rightarrow> error + store" where
  "gravityPass sleepingGuard w st =
     (case w of
        None \<Rightarrow> Inr st
      | Some wd \<Rightarrow>
          (case world_bodies wd of
             None \<Rightarrow> Inr st
           | Some hs \<Rightarrow> forEachE (gravityBody sleepingGuard hs) hs st))"

text \<open>
  \<open>isSleeping\<close> is a method of a rigid body, so the expression \<open>currentBody.isSleeping\<close> is
  a function object, which is truthy for every body. \<open>useGravity\<close> is the pass that the hook
  registers before each physics step.
\<close>

definition isSleeping_method_truthy :: "rigidBody \<Rightarrow> bool" where
  "isSleeping_method_truthy b = True"

definition useGravity :: "world option \<Rightarrow> store \<Rightarrow> error + store" where
  "useGravity w st = gravityPass isSleeping_method_truthy w st"

section \<open>Observations and a concrete scene\<close>

text \<open>The distance of a position from the vertical axis through the Sun.\<close>

definition horizontalRadius :: "Vector3 \<Rightarrow> real" where
  "horizontalRadius v = sqrt (vx v * vx v + vz v * vz v)"

definition spawnRadius :: "error + (bodyData \<times> rng) \<Rightarrow> real option" where
  "spawnRadius res =
     (case res of Inl e \<Rightarrow> None | Inr (bd, r) \<Rightarrow> Some (horizontalRadius (bd_position bd)))"

definition typeAfter :: "handle \<Rightarrow> error + sim \<Rightarrow> bodyType option" where
  "typeAfter h res =
     (case res of
        Inl e \<Rightarrow> None
      | Inr s \<Rightarrow> (case userData (bodies s h) of None \<Rightarrow> None | Some d \<Rightarrow> Some (type d)))"

definition explosionsOf :: "sim \<Rightarrow> (Vector3 \<times> Vector3) list" where
  "explosionsOf s = map (\<lambda>e. (ex_position e, ex_lookAt e)) (explosions s)"

text \<open>
  The momentum-weighted velocity of the specification,
  \<open>(v_target * m_target + v_other * m_other) / (m_target + m_other)\<close>, by components.
\<close>

definition v_combined :: "Vector3 \<Rightarrow> real \<Rightarrow> Vector3 \<Rightarrow> real \<Rightarrow> Vector3" where
  "v_combined vt mt vo mo =
     Vector3 ((vx vt * mt + vx vo * mo) / (mt + mo))
             ((vy vt * mt + vy vo * mo) / (mt + mo))
             ((vz vt * mt + vz vo * mo) / (mt + mo))"

text \<open>
  A scene with the Sun (handle 0), the Moon (handle 1) and a planet (every other handle). All
  draws of the random source are \<open>1/2\<close>, whose text is \<open>0.i\<close> in radix 36 and \<open>0.5\<close> in
  radix 10.
\<close>

definition halfRng :: rng where
  "halfRng = (\<lambda>n. 1 / 2)"

definition halfToStr :: "real \<Rightarrow> nat \<Rightarrow> string" where
  "halfToStr u radix = (if radix = 36 then ''0.i'' else ''0.5'')"

definition sceneSun :: rigidBody where
  "sceneSun = \<lparr>mass = 14137, translation = Vector3 0 0 0, linvel = Vector3 0 0 0,
               angvel = Vector3 0 0 0, isDynamic = False, isSleeping = False,
               userData = Some \<lparr>type = Sun, key = None\<rparr>\<rparr>"

definition sceneMoon :: rigidBody where
  "sceneMoon = \<lparr>mass = 500, translation = Vector3 100 0 0, linvel = Vector3 0 0 3,
                angvel = Vector3 0 0 0, isDynamic = True, isSleeping = False,
                userData = Some \<lparr>type = Moon, key = Some ''instance_moon''\<rparr>\<rparr>"

definition scenePlanet :: rigidBody where
  "scenePlanet = \<lparr>mass = 4, translation = Vector3 104 0 0, linvel = Vector3 0 0 (-6),
                  angvel = Vector3 0 0 0, isDynamic = True, isSleeping = False,
                  userData = Some \<lparr>type = Planet, key = Some ''instance_planet''\<rparr>\<rparr>"

definition sceneStore :: store where
  "sceneStore = (\<lambda>h. scenePlanet)(0 := sceneSun, 1 := sceneMoon)"

definition sceneWorld :: "world option" where
  "sceneWorld = Some \<lparr>world_bodies = Some [0, 1, 2]\<rparr>"

definition scene :: sim where
  "scene = \<lparr>bodies = sceneStore, explosions = [], trails = Map.empty, rng = halfRng\<rparr>"

definition contactAt :: "Vector3 \<Rightarrow> manifold" where
  "contactAt p = (\<lambda>i. if i = 0 then Some p else None)"

text \<open>The planet runs into the Moon; the Moon runs into the Sun.\<close>

definition planetHitsMoon :: collisionEvent where
  "planetHitsMoon = \<lparr>manifold = Some (contactAt (Vector3 102 0 0)),
                     target = Some (Some 2), other = Some (Some 1)\<rparr>"

definition moonHitsSun :: collisionEvent where
  "moonHitsSun = \<lparr>manifold = Some (contactAt (Vector3 15 0 0)),
                  target = Some (Some 1), other = Some (Some 0)\<rparr>"

text \<open>A further event on the scene: the planet runs into another planet of its own mass.\<close>

definition planetHitsTwin :: collisionEvent where
  "planetHitsTwin = \<lparr>manifold = Some (contactAt (Vector3 104 0 0)),
                     target = Some (Some 2), other = Some (Some 3)\<rparr>"

text \<open>
  The random source after the first \<open>n\<close> draws, and what a respawn leaves behind:
  \<open>respawnedWith bd tb ob td s s'\<close> says that in \<open>s'\<close> the target \<open>tb\<close> has the key, the
  position and the velocity of the body data \<open>bd\<close> (and of its old \<open>userData\<close> \<open>td\<close> all
  but the key), that the other body \<open>ob\<close> is where it was with the \<open>userData\<close> it had, and
  that the explosions have grown.
\<close>

definition dropDraws :: "nat \<Rightarrow> rng \<Rightarrow> rng" where
  "dropDraws n r = (\<lambda>k. r (k + n))"

definition respawnedWith :: "bodyData \<Rightarrow> handle \<Rightarrow> handle \<Rightarrow> userData \<Rightarrow> sim \<Rightarrow> sim \<Rightarrow> bool" where
  "respawnedWith bd tb ob td s s' =
     (userData (bodies s' tb) = Some (td\<lparr>key := Some (bd_key bd)\<rparr>) \<and>
      translation (bodies s' tb) = bd_position bd \<and>
      linvel (bodies s' tb) = bd_linearVelocity bd \<and>
      translation (bodies s' ob) = translation (bodies s ob) \<and>
      userData (bodies s' ob) = userData (bodies s ob) \<and>
      length (explosions s') > length (explosions s))"

text \<open>
  \<open>keepsKinematic st0 st\<close>: going from \<open>st0\<close> to \<open>st\<close>, no body has changed between
  dynamic and not, and the bodies that are not dynamic are as they were.
\<close>

definition keepsKinematic :: "store \<Rightarrow> store \<Rightarrow> bool" where
  "keepsKinematic st0 st =
     (\<forall>h. isDynamic (st h) = isDynamic (st0 h) \<and> (\<not> isDynamic (st0 h) \<longrightarrow> st h = st0 h))"

text \<open>The physics world of the scene, and one that holds the Sun and the planet only.\<close>

definition sunAndPlanet :: "world option" where
  "sunAndPlanet = Some \<lparr>world_bodies = Some [0, 2]\<rparr>"

definition twoPlanets :: "world option" where
  "twoPlanets = Some \<lparr>world_bodies = Some [2, 3]\<rparr>"

section \<open>Properties of the trail store\<close>

lemma jsIndex_last:
  "jsIndex xs (int (length xs) - 1) = (if xs = [] then None else Some (last xs))"
  by (cases xs rule: rev_cases) (simp_all add: jsIndex_def nth_append)

lemma addTrailPoint_other: "k' \<noteq> k \<Longrightarrow> addTrailPoint k p t k' = t k'"
  by (simp add: addTrailPoint_def Let_def split: option.splits)

lemma addTrailPoint_bounded:
  assumes "trailsBounded t"
  shows "trailsBounded (addTrailPoint k p t)"
proof -
  have old: "\<And>k' ps. t k' = Some ps \<Longrightarrow> length ps \<le> 300"
  proof -
    fix k' ps assume "t k' = Some ps"
    with assms show "length ps \<le> 300"
      unfolding trailsBounded_def by (metis option.simps(5))
  qed
  have "case addTrailPoint k p t k' of None \<Rightarrow> True | Some ps \<Rightarrow> length ps \<le> 300" for k'
  proof (cases "k' = k")
    case False
    then show ?thesis
      using old [of k'] by (simp add: addTrailPoint_other split: option.splits)
  next
    case True
    show ?thesis
      using old [of k] unfolding True
      by (auto simp: addTrailPoint_def Let_def jsIndex_last split: option.splits if_splits)
  qed
  then show ?thesis unfolding trailsBounded_def by blast
qed

lemma clearTrail_bounded: "trailsBounded t \<Longrightarrow> trailsBounded (clearTrail k t)"
  unfolding trailsBounded_def clearTrail_def by (auto split: option.splits)

lemma runTrailCalls_bounded: "trailsBounded t \<Longrightarrow> trailsBounded (runTrailCalls cs t)"
proof (induction cs arbitrary: t)
  case Nil
  then show ?case by simp
next
  case (Cons c cs)
  have "trailsBounded (runTrailCall c t)"
    using Cons.prems by (cases c) (simp_all add: addTrailPoint_bounded clearTrail_bounded)
  then show ?case using Cons.IH by simp
qed

lemma empty_bounded: "trailsBounded Map.empty"
  by (simp add: trailsBounded_def)

lemma addTrailPoint_cases:
  "addTrailPoint k p t =
     (let trail = (case t k of None \<Rightarrow> [] | Some ps \<Rightarrow> ps)
      in if trail = [] \<or> distanceToSquared (last trail) p > 1
         then t(k \<mapsto> (if length trail \<ge> 300 then drop 1 trail else trail) @ [p])
         else t)"
proof -
  define trail where "trail = (case t k of None \<Rightarrow> [] | Some ps \<Rightarrow> ps)"
  define newTrail where "newTrail = (if length trail \<ge> 300 then drop 1 trail else trail)"
  have e: "newTrail = [] \<longleftrightarrow> trail = []"
    by (auto simp: newTrail_def)
  have l: "newTrail \<noteq> [] \<Longrightarrow> last newTrail = last trail"
    by (auto simp: newTrail_def last_drop)
  have "addTrailPoint k p t =
          (if newTrail = [] then t(k \<mapsto> newTrail @ [p])
           else if distanceToSquared (last newTrail) p > 1 then t(k \<mapsto> newTrail @ [p]) else t)"
    unfolding addTrailPoint_def trail_def [symmetric] Let_def newTrail_def [symmetric]
    by (simp add: jsIndex_last)
  then show ?thesis
    unfolding Let_def trail_def [symmetric] newTrail_def [symmetric]
    using e l by auto
qed

section \<open>Vector and spawn arithmetic\<close>

lemma SUN_MASS_pos: "0 < SUN_MASS"
proof -
  have "(1::real) \<le> (4 / 3) * pi * SUN_RADIUS ^ 3 * 1410"
    using pi_ge_two by (simp add: SUN_RADIUS_def)
  then have "1 \<le> round ((4 / 3) * pi * SUN_RADIUS ^ 3 * 1410)"
    by (simp add: round_def le_floor_iff)
  then show ?thesis by (simp add: SUN_MASS_def)
qed

lemma GM_pos: "0 < GRAVITATIONAL_CONSTANT * SUN_MASS"
  using SUN_MASS_pos by (simp add: GRAVITATIONAL_CONSTANT_def)

lemma lengthV_nonneg: "0 \<le> lengthV v"
  by (simp add: lengthV_def)

lemma lengthV_zero_iff: "lengthV v = 0 \<longleftrightarrow> v = Vector3 0 0 0"
  by (cases v) (auto simp: lengthV_def add_nonneg_eq_0_iff)

lemma calculateInitialVelocity_value:
  assumes "lengthV p \<noteq> 0"
  shows "calculateInitialVelocity p resp =
           Inr (multiplyScalar
                  (multiplyScalar
                     (multiplyScalar (normalizeV (crossVectors p (Vector3 0 1 0)))
                        (sqrt (GRAVITATIONAL_CONSTANT * SUN_MASS / lengthV p)))
                     20000)
                  (if resp then 0.75 else 1))"
proof -
  have "0 < lengthV p" using assms lengthV_nonneg [of p] by simp
  then have "0 \<le> GRAVITATIONAL_CONSTANT * SUN_MASS / lengthV p"
    using GM_pos by simp
  then show ?thesis using assms
    by (simp add: calculateInitialVelocity_def Let_def bindE_def jsDivide_def Math_sqrt_def
        multiplyScalar_def)
qed

lemma cross_up: "crossVectors p (Vector3 0 1 0) = Vector3 (- vz p) 0 (vx p)"
  by (simp add: crossVectors_def)

lemma lengthV_cross_up: "lengthV (crossVectors p (Vector3 0 1 0)) = horizontalRadius p"
  by (simp add: cross_up lengthV_def horizontalRadius_def add.commute)

lemma horizontalRadius_zero_iff: "horizontalRadius p = 0 \<longleftrightarrow> vx p = 0 \<and> vz p = 0"
  by (auto simp: horizontalRadius_def add_nonneg_eq_0_iff)

lemma lengthV_multiplyScalar: "lengthV (multiplyScalar v c) = lengthV v * \<bar>c\<bar>"
proof -
  have "vx v * c * (vx v * c) + vy v * c * (vy v * c) + vz v * c * (vz v * c)
        = (vx v * vx v + vy v * vy v + vz v * vz v) * (c * c)"
    by (simp add: algebra_simps)
  then show ?thesis
    by (simp add: lengthV_def multiplyScalar_def real_sqrt_mult)
qed

lemma lengthV_normalizeV: "lengthV v \<noteq> 0 \<Longrightarrow> lengthV (normalizeV v) = 1"
  using lengthV_nonneg [of v] by (simp add: normalizeV_def lengthV_multiplyScalar)

lemma dot_multiplyScalar: "dot (multiplyScalar v c) p = dot v p * c"
  by (simp add: dot_def multiplyScalar_def algebra_simps)

lemma dot_normalizeV: "dot (normalizeV v) p = dot v p * (1 / (if lengthV v = 0 then 1 else lengthV v))"
  by (simp add: normalizeV_def dot_multiplyScalar)

lemma dot_cross_up: "dot (crossVectors p (Vector3 0 1 0)) p = 0"
  by (simp add: cross_up dot_def)

lemma horizontalRadius_polar: "horizontalRadius (Vector3 (cos t * R) y (sin t * R)) = \<bar>R\<bar>"
proof -
  have one: "cos t * cos t + sin t * sin t = 1"
    using sin_cos_squared_add2 [of t] by (simp add: power2_eq_square)
  have "cos t * R * (cos t * R) + sin t * R * (sin t * R)
        = (cos t * cos t + sin t * sin t) * (R * R)"
    by (simp only: distrib_right mult.assoc mult.left_commute [of R])
  then have "cos t * R * (cos t * R) + sin t * R * (sin t * R) = R * R"
    by (simp only: one mult_1)
  then show ?thesis by (simp add: horizontalRadius_def)
qed

lemma horizontalRadius_lengthV: "horizontalRadius p \<noteq> 0 \<Longrightarrow> lengthV p \<noteq> 0"
  by (auto simp: horizontalRadius_zero_iff lengthV_zero_iff)

lemma entry_position:
  "calculateInitialPosition True r =
     (Vector3 (cos (r 0 * pi * 2) * (SPAWN_RADIUS * 1.5)) (r 1 * 10)
              (sin (r 0 * pi * 2) * (SPAWN_RADIUS * 1.5)),
      \<lambda>n. r (Suc (Suc n)))"
  by (simp add: calculateInitialPosition_def random_def Let_def)

lemma inner_position:
  "calculateInitialPosition False r =
     (Vector3 (cos (r 0 * pi * 2) * (r 1 * SPAWN_RADIUS + SUN_RADIUS * 3)) (r 2 * 10)
              (sin (r 0 * pi * 2) * (r 1 * SPAWN_RADIUS + SUN_RADIUS * 3)),
      \<lambda>n. r (Suc (Suc (Suc n))))"
  by (simp add: calculateInitialPosition_def random_def Let_def numeral_2_eq_2)

lemma entry_radius:
  "horizontalRadius (fst (calculateInitialPosition True r)) = SPAWN_RADIUS * 1.5"
  by (simp add: entry_position horizontalRadius_polar SPAWN_RADIUS_def)

lemma inner_radius:
  assumes "0 \<le> r 1"
  shows "horizontalRadius (fst (calculateInitialPosition False r)) = r 1 * SPAWN_RADIUS + SUN_RADIUS * 3"
proof -
  have "0 \<le> r 1 * SPAWN_RADIUS + SUN_RADIUS * 3"
    using assms by (simp add: SPAWN_RADIUS_def SUN_RADIUS_def)
  then show ?thesis by (simp add: inner_position horizontalRadius_polar)
qed

lemma bodyDataWith_value:
  assumes "horizontalRadius (fst (calculateInitialPosition resp r)) \<noteq> 0"
  shows "\<exists>v sc r'. calculateInitialVelocity (fst (calculateInitialPosition resp r)) resp = Inr v \<and>
           bodyDataWith k \<lparr>respawn = Some resp, typeOverride = ty, scaleOverride = so\<rparr> r =
             Inr (\<lparr>bd_key = k, bd_position = fst (calculateInitialPosition resp r),
                   bd_linearVelocity = v, bd_scale = sc,
                   bd_userData = \<lparr>type = (case ty of None \<Rightarrow> Planet | Some t \<Rightarrow> t),
                                  key = Some k\<rparr>\<rparr>, r')"
proof -
  obtain v where v: "calculateInitialVelocity (fst (calculateInitialPosition resp r)) resp = Inr v"
    using calculateInitialVelocity_value [OF horizontalRadius_lengthV [OF assms]] by blast
  show ?thesis
    using v
    by (cases "calculateInitialPosition resp r"; cases so)
       (auto simp: bodyDataWith_def Let_def bindE_def random_def split: prod.splits)
qed

section \<open>What a resolved collision does\<close>

lemma respawn_bodyData:
  "\<exists>bd r'. bodyDataWith k \<lparr>respawn = Some True, typeOverride = ty, scaleOverride = so\<rparr> r
               = Inr (bd, r') \<and>
            bd_key bd = k \<and>
            horizontalRadius (bd_position bd) = SPAWN_RADIUS * 1.5 \<and>
            type (bd_userData bd) = (case ty of None \<Rightarrow> Planet | Some t \<Rightarrow> t)"
proof -
  have "horizontalRadius (fst (calculateInitialPosition True r)) \<noteq> 0"
    by (simp add: entry_radius SPAWN_RADIUS_def)
  from bodyDataWith_value [OF this, of k ty so]
  show ?thesis by (auto simp: entry_radius)
qed

lemma combineVelocity_value:
  "mt + mo \<noteq> 0 \<Longrightarrow> combineVelocity vt mt vo mo = Inr (v_combined vt mt vo mo)"
  by (simp add: combineVelocity_def divideScalar_def addScaledVector_def multiplyScalar_def
      v_combined_def Let_def add_divide_distrib)

lemma createBodyData_respawn:
  "\<exists>bd r'. createBodyData toStr \<lparr>respawn = Some True, typeOverride = ty, scaleOverride = so\<rparr> r
               = Inr (bd, r') \<and>
            bd_key bd = ''instance_'' @ substr (toStr (r 0) 36) 2 9 \<and>
            horizontalRadius (bd_position bd) = SPAWN_RADIUS * 1.5 \<and>
            type (bd_userData bd) = (case ty of None \<Rightarrow> Planet | Some t \<Rightarrow> t)"
  using respawn_bodyData [of "''instance_'' @ substr (toStr (r 0) 36) 2 9" ty so "\<lambda>n. r (Suc n)"]
  by (simp add: createBodyData_def random_def)

lemma newPlanet_respawn:
  "\<exists>bd r'. newPlanet toStr \<lparr>respawn = Some True, typeOverride = ty, scaleOverride = so\<rparr> r
               = Inr (bd, r') \<and>
            bd_key bd = ''instance_'' @ toStr (r 0) 10 \<and>
            horizontalRadius (bd_position bd) = SPAWN_RADIUS * 1.5 \<and>
            type (bd_userData bd) = (case ty of None \<Rightarrow> Planet | Some t \<Rightarrow> t)"
  using respawn_bodyData [of "''instance_'' @ toStr (r 0) 10" ty so "\<lambda>n. r (Suc n)"]
  by (simp add: newPlanet_def random_def)

lemma handleCollision_resolved:
  assumes ev: "manifold ev = Some mf" "target ev = Some (Some tb)" "other ev = Some (Some ob)"
    and cp: "mf 0 = Some cp"
    and ud: "userData (bodies s tb) = Some td" "userData (bodies s ob) = Some od"
    and ms: "mass (bodies s ob) > mass (bodies s tb)" "mass (bodies s tb) > 0"
  shows "let s1 = (if type od \<in> set validDynamicTypes
                   then updateBody ob
                          (setLinvel (v_combined (linvel (bodies s tb)) (mass (bodies s tb))
                                        (linvel (bodies s ob)) (mass (bodies s ob))) True) s
                   else s);
             s2 = triggerExplosion cp (translation (bodies s tb)) s1;
             s3 = (if type od = Moon
                   then triggerExplosion cp (translation (bodies s ob)) s2 else s2);
             s4 = s3\<lparr>trails := clearTrail (propertyName (key td)) (trails s3)\<rparr>
         in \<exists>bd r'.
              bd_key bd = ''instance_'' @ substr (toStr (rng s4 0) 36) 2 9 \<and>
              horizontalRadius (bd_position bd) = SPAWN_RADIUS * 1.5 \<and>
              handleCollision toStr ev s =
                Inr (let s5 = respawnTarget tb td bd True (s4\<lparr>rng := r'\<rparr>)
                     in updateBody tb
                          (setAngvel (Vector3 0 (fst (random (rng s5)) * 0.2 - 0.1) 0) True)
                          (s5\<lparr>rng := snd (random (rng s5))\<rparr>))"
proof -
  have cm: "mass (bodies s tb) + mass (bodies s ob) \<noteq> 0" using ms by simp
  define s1 where "s1 = (if type od \<in> set validDynamicTypes
                   then updateBody ob
                          (setLinvel (v_combined (linvel (bodies s tb)) (mass (bodies s tb))
                                        (linvel (bodies s ob)) (mass (bodies s ob))) True) s
                   else s)"
  define s2 where "s2 = triggerExplosion cp (translation (bodies s tb)) s1"
  define s3 where "s3 = (if type od = Moon
                   then triggerExplosion cp (translation (bodies s ob)) s2 else s2)"
  define s4 where "s4 = s3\<lparr>trails := clearTrail (propertyName (key td)) (trails s3)\<rparr>"
  obtain bd r' where bd:
    "createBodyData toStr \<lparr>respawn = Some True, typeOverride = Some Planet, scaleOverride = None\<rparr>
       (rng s4) = Inr (bd, r')"
    "bd_key bd = ''instance_'' @ substr (toStr (rng s4 0) 36) 2 9"
    "horizontalRadius (bd_position bd) = SPAWN_RADIUS * 1.5"
    using createBodyData_respawn [of toStr "Some Planet" None "rng s4"] by blast
  have "handleCollision toStr ev s =
          Inr (let s5 = respawnTarget tb td bd True (s4\<lparr>rng := r'\<rparr>)
               in updateBody tb
                    (setAngvel (Vector3 0 (fst (random (rng s5)) * 0.2 - 0.1) 0) True)
                    (s5\<lparr>rng := snd (random (rng s5))\<rparr>))"
    using ev cp ud ms bd(1)
    unfolding handleCollision_def s4_def s3_def s2_def s1_def
    by (simp add: combineVelocity_value [OF cm] bindE_def Let_def split: prod.splits)
  with bd(2,3) show ?thesis
    unfolding s4_def s3_def s2_def s1_def Let_def by blast
qed

lemma explosionsOf_trigger:
  "explosionsOf (triggerExplosion p l s) = explosionsOf s @ [(p, l)]"
  by (simp add: explosionsOf_def triggerExplosion_def random_def)

lemma explosionsOf_trails: "explosionsOf (s\<lparr>trails := t\<rparr>) = explosionsOf s"
  by (simp add: explosionsOf_def)

lemma bodies_trigger: "bodies (triggerExplosion p l s) = bodies s"
  by (simp add: triggerExplosion_def random_def)

lemma trails_trigger: "trails (triggerExplosion p l s) = trails s"
  by (simp add: triggerExplosion_def random_def)

lemma bodies_updateBody: "bodies (updateBody h f s) = (bodies s)(h := f (bodies s h))"
  by (simp add: updateBody_def)

lemma explosions_updateBody: "explosionsOf (updateBody h f s) = explosionsOf s"
  by (simp add: updateBody_def explosionsOf_def)

lemma trails_updateBody: "trails (updateBody h f s) = trails s"
  by (simp add: updateBody_def)

lemma bodies_respawnTarget:
  "bodies (respawnTarget tb td bd w s) =
     (bodies s)(tb := setLinvel (bd_linearVelocity bd) w
                        (setTranslation (bd_position bd) w
                           ((bodies s tb)\<lparr>userData := Some (td\<lparr>key := Some (bd_key bd)\<rparr>)\<rparr>)))"
  by (simp add: respawnTarget_def Let_def updateBody_def)

lemma explosions_respawnTarget: "explosionsOf (respawnTarget tb td bd w s) = explosionsOf s"
  by (simp add: respawnTarget_def Let_def explosions_updateBody)

lemma trails_respawnTarget: "trails (respawnTarget tb td bd w s) = trails s"
  by (simp add: respawnTarget_def Let_def trails_updateBody)

lemma rng_respawnTarget: "rng (respawnTarget tb td bd w s) = rng s"
  by (simp add: respawnTarget_def Let_def updateBody_def)

lemma setter_fields:
  "linvel (setLinvel v w b) = v"
  "translation (setLinvel v w b) = translation b"
  "userData (setLinvel v w b) = userData b"
  "translation (setTranslation v w b) = v"
  "userData (setTranslation v w b) = userData b"
  "linvel (setAngvel v w b) = linvel b"
  "translation (setAngvel v w b) = translation b"
  "userData (setAngvel v w b) = userData b"
  by (simp_all add: setLinvel_def setTranslation_def setAngvel_def wake_def)

lemma handleCollision_effects:
  assumes ev: "manifold ev = Some mf" "target ev = Some (Some tb)" "other ev = Some (Some ob)"
    and cp: "mf 0 = Some cp"
    and ud: "userData (bodies s tb) = Some td" "userData (bodies s ob) = Some od"
    and ms: "mass (bodies s ob) > mass (bodies s tb)" "mass (bodies s tb) > 0"
  shows "\<exists>s' k. handleCollision toStr ev s = Inr s' \<and>
           linvel (bodies s' ob) =
             (if type od \<in> set validDynamicTypes
              then v_combined (linvel (bodies s tb)) (mass (bodies s tb))
                     (linvel (bodies s ob)) (mass (bodies s ob))
              else linvel (bodies s ob)) \<and>
           explosionsOf s' =
             explosionsOf s @ (cp, translation (bodies s tb)) #
               (if type od = Moon then [(cp, translation (bodies s ob))] else []) \<and>
           trails s' (propertyName (key td)) = None \<and>
           userData (bodies s' tb) = Some (td\<lparr>key := Some k\<rparr>) \<and>
           horizontalRadius (translation (bodies s' tb)) = SPAWN_RADIUS * 1.5"
proof -
  have ne: "tb \<noteq> ob" using ms by auto
  from handleCollision_resolved [OF assms, of toStr]
  obtain bd r' s4 where
    s4: "s4 = (let s1 = (if type od \<in> set validDynamicTypes
                   then updateBody ob
                          (setLinvel (v_combined (linvel (bodies s tb)) (mass (bodies s tb))
                                        (linvel (bodies s ob)) (mass (bodies s ob))) True) s
                   else s);
             s2 = triggerExplosion cp (translation (bodies s tb)) s1;
             s3 = (if type od = Moon
                   then triggerExplosion cp (translation (bodies s ob)) s2 else s2)
          in s3\<lparr>trails := clearTrail (propertyName (key td)) (trails s3)\<rparr>)"
    and rad: "horizontalRadius (bd_position bd) = SPAWN_RADIUS * 1.5"
    and res: "handleCollision toStr ev s =
                Inr (let s5 = respawnTarget tb td bd True (s4\<lparr>rng := r'\<rparr>)
                     in updateBody tb
                          (setAngvel (Vector3 0 (fst (random (rng s5)) * 0.2 - 0.1) 0) True)
                          (s5\<lparr>rng := snd (random (rng s5))\<rparr>))"
    unfolding Let_def by blast
  define s' where "s' = (let s5 = respawnTarget tb td bd True (s4\<lparr>rng := r'\<rparr>)
                     in updateBody tb
                          (setAngvel (Vector3 0 (fst (random (rng s5)) * 0.2 - 0.1) 0) True)
                          (s5\<lparr>rng := snd (random (rng s5))\<rparr>))"
  have b4: "bodies s4 = (if type od \<in> set validDynamicTypes
                   then (bodies s)(ob := setLinvel (v_combined (linvel (bodies s tb)) (mass (bodies s tb))
                                        (linvel (bodies s ob)) (mass (bodies s ob))) True (bodies s ob))
                   else bodies s)"
    unfolding s4 by (simp add: Let_def bodies_trigger bodies_updateBody)
  have e4: "explosionsOf s4 = explosionsOf s @ (cp, translation (bodies s tb)) #
               (if type od = Moon then [(cp, translation (bodies s ob))] else [])"
    unfolding s4 by (simp add: Let_def explosionsOf_trigger explosions_updateBody explosionsOf_trails)
  have t4: "trails s4 (propertyName (key td)) = None"
    unfolding s4 by (simp add: Let_def clearTrail_def)
  have bs: "bodies s' = (bodies s4)(tb := setAngvel (Vector3 0 (r' 0 * 0.2 - 0.1) 0) True
               (setLinvel (bd_linearVelocity bd) True
                        (setTranslation (bd_position bd) True
                           ((bodies s4 tb)\<lparr>userData := Some (td\<lparr>key := Some (bd_key bd)\<rparr>)\<rparr>))))"
    unfolding s'_def
    by (simp add: Let_def bodies_updateBody bodies_respawnTarget rng_respawnTarget random_def)
  have es: "explosionsOf s' = explosionsOf s4"
    unfolding s'_def by (simp add: Let_def explosionsOf_def updateBody_def respawnTarget_def)
  have ts: "trails s' = trails s4"
    unfolding s'_def by (simp add: Let_def updateBody_def respawnTarget_def)
  have 1: "linvel (bodies s' ob) =
             (if type od \<in> set validDynamicTypes
              then v_combined (linvel (bodies s tb)) (mass (bodies s tb))
                     (linvel (bodies s ob)) (mass (bodies s ob))
              else linvel (bodies s ob))"
    using ne by (simp add: bs b4 setter_fields)
  have 4: "userData (bodies s' tb) = Some (td\<lparr>key := Some (bd_key bd)\<rparr>)"
    by (simp add: bs setter_fields)
  have 5: "horizontalRadius (translation (bodies s' tb)) = SPAWN_RADIUS * 1.5"
    using rad by (simp add: bs setter_fields)
  show ?thesis
    using res 1 4 5 e4 t4 unfolding s'_def [symmetric] es [symmetric] ts [symmetric] by blast
qed

lemma handleCollision_Planets_effects:
  assumes ev: "manifold ev = Some mf" "target ev = Some (Some tb)" "other ev = Some (Some ob)"
    and cp: "mf 0 = Some cp"
    and ud: "userData (bodies s tb) = Some td" "userData (bodies s ob) = Some od"
    and ms: "mass (bodies s ob) > mass (bodies s tb)" "mass (bodies s tb) \<ge> 0"
  shows "\<exists>s' k. handleCollision_Planets toStr ev s = Inr s' \<and>
           linvel (bodies s' ob) =
             (if type od \<in> set validDynamicTypes
              then v_combined (linvel (bodies s tb)) (mass (bodies s tb))
                     (linvel (bodies s ob)) (mass (bodies s ob))
              else linvel (bodies s ob)) \<and>
           explosionsOf s' =
             explosionsOf s @ (cp, translation (bodies s tb)) #
               (if type od = Moon then [(cp, translation (bodies s ob))] else []) \<and>
           trails s' (propertyName (key td)) = None \<and>
           userData (bodies s' tb) = Some (td\<lparr>key := Some k\<rparr>) \<and>
           horizontalRadius (translation (bodies s' tb)) = SPAWN_RADIUS * 1.5"
proof -
  have ne: "tb \<noteq> ob" using ms by auto
  have cm: "mass (bodies s tb) + mass (bodies s ob) \<noteq> 0" using ms by simp
  define s4 where
    "s4 = (let s1 = (if type od \<in> set validDynamicTypes
                   then updateBody ob
                          (setLinvel (v_combined (linvel (bodies s tb)) (mass (bodies s tb))
                                        (linvel (bodies s ob)) (mass (bodies s ob))) False) s
                   else s);
             s2 = triggerExplosion cp (translation (bodies s tb)) s1;
             s3 = (if type od = Moon
                   then triggerExplosion cp (translation (bodies s ob)) s2 else s2)
          in s3\<lparr>trails := clearTrail (propertyName (key td)) (trails s3)\<rparr>)"
  obtain bd r' where bd:
    "newPlanet toStr \<lparr>respawn = Some True, typeOverride = None, scaleOverride = None\<rparr>
       (rng s4) = Inr (bd, r')"
    "horizontalRadius (bd_position bd) = SPAWN_RADIUS * 1.5"
    using newPlanet_respawn [of toStr None None "rng s4"] by blast
  define s' where "s' = respawnTarget tb td bd False (s4\<lparr>rng := r'\<rparr>)"
  have b4: "bodies s4 = (if type od \<in> set validDynamicTypes
                   then (bodies s)(ob := setLinvel (v_combined (linvel (bodies s tb)) (mass (bodies s tb))
                                        (linvel (bodies s ob)) (mass (bodies s ob))) False (bodies s ob))
                   else bodies s)"
    unfolding s4_def by (simp add: Let_def bodies_trigger bodies_updateBody)
  have utb: "userData (bodies s4 tb) = Some td"
    using ne ud by (simp add: b4 setter_fields)
  have res: "handleCollision_Planets toStr ev s = Inr s'"
    using ev cp ud ms bd(1) utb ne
    unfolding handleCollision_Planets_def s'_def s4_def
    by (simp add: combineVelocity_value [OF cm] bindE_def Let_def bodies_trigger
        bodies_updateBody setter_fields split: prod.splits)
  have e4: "explosionsOf s4 = explosionsOf s @ (cp, translation (bodies s tb)) #
               (if type od = Moon then [(cp, translation (bodies s ob))] else [])"
    unfolding s4_def
    by (simp add: Let_def explosionsOf_trigger explosions_updateBody explosionsOf_trails)
  have t4: "trails s4 (propertyName (key td)) = None"
    unfolding s4_def by (simp add: Let_def clearTrail_def)
  have bs: "bodies s' = (bodies s4)(tb := setLinvel (bd_linearVelocity bd) False
                        (setTranslation (bd_position bd) False
                           ((bodies s4 tb)\<lparr>userData := Some (td\<lparr>key := Some (bd_key bd)\<rparr>)\<rparr>)))"
    unfolding s'_def by (simp add: bodies_respawnTarget)
  have es: "explosionsOf s' = explosionsOf s4"
    unfolding s'_def by (simp add: explosionsOf_def respawnTarget_def Let_def updateBody_def)
  have ts: "trails s' = trails s4"
    unfolding s'_def by (simp add: respawnTarget_def Let_def updateBody_def)
  have 1: "linvel (bodies s' ob) =
             (if type od \<in> set validDynamicTypes
              then v_combined (linvel (bodies s tb)) (mass (bodies s tb))
                     (linvel (bodies s ob)) (mass (bodies s ob))
              else linvel (bodies s ob))"
    using ne by (simp add: bs b4 setter_fields)
  have 4: "userData (bodies s' tb) = Some (td\<lparr>key := Some (bd_key bd)\<rparr>)"
    by (simp add: bs setter_fields)
  have 5: "horizontalRadius (translation (bodies s' tb)) = SPAWN_RADIUS * 1.5"
    using bd(2) by (simp add: bs setter_fields)
  show ?thesis
    using res 1 4 5 e4 t4 unfolding es [symmetric] ts [symmetric] by blast
qed

lemma handleCollision_ignored:
  assumes "manifold ev = Some mf" "target ev = Some (Some tb)" "other ev = Some (Some ob)"
    and "\<not> (mass (bodies s ob) > mass (bodies s tb) \<and> mass (bodies s tb) > 0 \<and> mf 0 \<noteq> None)"
  shows "handleCollision toStr ev s = Inr s"
  using assms
  by (auto simp: handleCollision_def Let_def split: option.splits)

lemma handleCollision_malformed:
  assumes "manifold ev = None \<or> target ev = None \<or> target ev = Some None
           \<or> other ev = None \<or> other ev = Some None"
  shows "handleCollision toStr ev s = Inr s"
  using assms
  by (auto simp: handleCollision_def Let_def split: option.splits)

lemma handleCollision_Planets_ignored:
  assumes "target ev = Some (Some tb)" "other ev = Some (Some ob)"
    and "\<not> mass (bodies s ob) > mass (bodies s tb)"
  shows "handleCollision_Planets toStr ev s = Inr s"
  using assms
  by (auto simp: handleCollision_Planets_def Let_def split: option.splits)

lemma explosionsOf_length: "length (explosionsOf s) = length (explosions s)"
  by (simp add: explosionsOf_def)

lemma createBodyData_initial:
  assumes "0 \<le> r 2" "r 2 < 1"
  shows "\<exists>bd r'. createBodyData toStr \<lparr>respawn = Some False, typeOverride = ty, scaleOverride = so\<rparr> r
               = Inr (bd, r') \<and>
            SUN_RADIUS * 3 \<le> horizontalRadius (bd_position bd) \<and>
            horizontalRadius (bd_position bd) < SUN_RADIUS * 3 + SPAWN_RADIUS"
proof -
  let ?r = "\<lambda>n. r (Suc n)"
  have r1: "0 \<le> ?r 1" "?r 1 < 1" using assms by (simp_all add: numeral_2_eq_2)
  have rad: "horizontalRadius (fst (calculateInitialPosition False ?r))
             = ?r 1 * SPAWN_RADIUS + SUN_RADIUS * 3"
    using inner_radius [of ?r] r1(1) by simp
  have lo: "SUN_RADIUS * 3 \<le> ?r 1 * SPAWN_RADIUS + SUN_RADIUS * 3"
    using r1(1) by (simp add: SPAWN_RADIUS_def)
  have hi: "?r 1 * SPAWN_RADIUS + SUN_RADIUS * 3 < SUN_RADIUS * 3 + SPAWN_RADIUS"
    using r1(2) by (simp add: SPAWN_RADIUS_def)
  have nz: "horizontalRadius (fst (calculateInitialPosition False ?r)) \<noteq> 0"
    using lo unfolding rad by (simp add: SUN_RADIUS_def)
  from bodyDataWith_value [OF nz, of "''instance_'' @ substr (toStr (r 0) 36) 2 9" ty so]
  show ?thesis
    using lo hi unfolding rad [symmetric]
    by (auto simp: createBodyData_def random_def)
qed

lemma rng_after_explosions:
  "rng (triggerExplosion p l s) = dropDraws (Suc 0) (rng s)"
  "dropDraws (Suc 0) (dropDraws (Suc 0) r) = dropDraws 2 r"
  by (simp_all add: triggerExplosion_def random_def dropDraws_def fun_eq_iff numeral_2_eq_2)

lemma rng_updateBody: "rng (updateBody h f s) = rng s"
  by (simp add: updateBody_def)

lemma handleCollision_respawn:
  assumes ev: "manifold ev = Some mf" "target ev = Some (Some tb)" "other ev = Some (Some ob)"
    and cp: "mf 0 = Some cp"
    and ud: "userData (bodies s tb) = Some td" "userData (bodies s ob) = Some od"
    and ms: "mass (bodies s ob) > mass (bodies s tb)" "mass (bodies s tb) > 0"
  shows "\<exists>s' bd r'.
           createBodyData toStr
             \<lparr>respawn = Some True, typeOverride = Some Planet, scaleOverride = None\<rparr>
             (dropDraws (if type od = Moon then 2 else 1) (rng s)) = Inr (bd, r') \<and>
           handleCollision toStr ev s = Inr s' \<and> respawnedWith bd tb ob td s s'"
proof -
  have ne: "tb \<noteq> ob" using ms by auto
  have cm: "mass (bodies s tb) + mass (bodies s ob) \<noteq> 0" using ms by simp
  define s1 where "s1 = (if type od \<in> set validDynamicTypes
                   then updateBody ob
                          (setLinvel (v_combined (linvel (bodies s tb)) (mass (bodies s tb))
                                        (linvel (bodies s ob)) (mass (bodies s ob))) True) s
                   else s)"
  define s2 where "s2 = triggerExplosion cp (translation (bodies s tb)) s1"
  define s3 where "s3 = (if type od = Moon
                   then triggerExplosion cp (translation (bodies s ob)) s2 else s2)"
  define s4 where "s4 = s3\<lparr>trails := clearTrail (propertyName (key td)) (trails s3)\<rparr>"
  have r1: "rng s1 = rng s" unfolding s1_def by (simp add: rng_updateBody)
  have r4: "rng s4 = dropDraws (if type od = Moon then 2 else 1) (rng s)"
    unfolding s4_def s3_def s2_def by (simp add: rng_after_explosions r1)
  have b1: "bodies s1 = (if type od \<in> set validDynamicTypes
                   then (bodies s)(ob := setLinvel (v_combined (linvel (bodies s tb)) (mass (bodies s tb))
                                        (linvel (bodies s ob)) (mass (bodies s ob))) True (bodies s ob))
                   else bodies s)"
    unfolding s1_def by (simp add: bodies_updateBody)
  have b4: "bodies s4 = bodies s1"
    unfolding s4_def s3_def s2_def by (simp add: bodies_trigger)
  have e1: "explosionsOf s1 = explosionsOf s"
    unfolding s1_def by (simp add: explosions_updateBody)
  have e4: "explosionsOf s4 = explosionsOf s @ (cp, translation (bodies s tb)) #
               (if type od = Moon then [(cp, translation (bodies s ob))] else [])"
    unfolding s4_def s3_def s2_def
    by (simp add: explosionsOf_trigger explosionsOf_trails e1)
  obtain bd r' where bd:
    "createBodyData toStr \<lparr>respawn = Some True, typeOverride = Some Planet, scaleOverride = None\<rparr>
       (rng s4) = Inr (bd, r')"
    using createBodyData_respawn [of toStr "Some Planet" None "rng s4"] by blast
  define s' where "s' = (let s5 = respawnTarget tb td bd True (s4\<lparr>rng := r'\<rparr>)
                     in updateBody tb
                          (setAngvel (Vector3 0 (fst (random (rng s5)) * 0.2 - 0.1) 0) True)
                          (s5\<lparr>rng := snd (random (rng s5))\<rparr>))"
  have res: "handleCollision toStr ev s = Inr s'"
    using ev cp ud ms bd
    unfolding handleCollision_def s'_def s4_def s3_def s2_def s1_def
    by (simp add: combineVelocity_value [OF cm] bindE_def Let_def split: prod.splits)
  have bs: "bodies s' = (bodies s4)(tb := setAngvel (Vector3 0 (r' 0 * 0.2 - 0.1) 0) True
               (setLinvel (bd_linearVelocity bd) True
                        (setTranslation (bd_position bd) True
                           ((bodies s4 tb)\<lparr>userData := Some (td\<lparr>key := Some (bd_key bd)\<rparr>)\<rparr>))))"
    unfolding s'_def
    by (simp add: Let_def bodies_updateBody bodies_respawnTarget rng_respawnTarget random_def)
  have es: "explosionsOf s' = explosionsOf s4"
    unfolding s'_def by (simp add: Let_def explosionsOf_def updateBody_def respawnTarget_def)
  have 1: "userData (bodies s' tb) = Some (td\<lparr>key := Some (bd_key bd)\<rparr>)"
    by (simp add: bs setter_fields)
  have 2: "translation (bodies s' tb) = bd_position bd"
    by (simp add: bs setter_fields)
  have 3: "linvel (bodies s' tb) = bd_linearVelocity bd"
    by (simp add: bs setter_fields)
  have 4: "translation (bodies s' ob) = translation (bodies s ob)"
    using ne by (simp add: bs b4 b1 setter_fields)
  have 5: "userData (bodies s' ob) = userData (bodies s ob)"
    using ne by (simp add: bs b4 b1 setter_fields)
  have "length (explosionsOf s') > length (explosionsOf s)"
    unfolding es e4 by simp
  then have 6: "length (explosions s') > length (explosions s)"
    by (simp add: explosionsOf_length)
  have "respawnedWith bd tb ob td s s'"
    unfolding respawnedWith_def using 1 2 3 4 5 6 by blast
  with res bd show ?thesis unfolding r4 by blast
qed

lemma handleCollision_Planets_respawn:
  assumes ev: "manifold ev = Some mf" "target ev = Some (Some tb)" "other ev = Some (Some ob)"
    and cp: "mf 0 = Some cp"
    and ud: "userData (bodies s tb) = Some td" "userData (bodies s ob) = Some od"
    and ms: "mass (bodies s ob) > mass (bodies s tb)" "mass (bodies s tb) \<ge> 0"
  shows "\<exists>s' bd r'.
           newPlanet toStr
             \<lparr>respawn = Some True, typeOverride = None, scaleOverride = None\<rparr>
             (dropDraws (if type od = Moon then 2 else 1) (rng s)) = Inr (bd, r') \<and>
           handleCollision_Planets toStr ev s = Inr s' \<and> respawnedWith bd tb ob td s s'"
proof -
  have ne: "tb \<noteq> ob" using ms by auto
  have cm: "mass (bodies s tb) + mass (bodies s ob) \<noteq> 0" using ms by simp
  define s1 where "s1 = (if type od \<in> set validDynamicTypes
                   then updateBody ob
                          (setLinvel (v_combined (linvel (bodies s tb)) (mass (bodies s tb))
                                        (linvel (bodies s ob)) (mass (bodies s ob))) False) s
                   else s)"
  define s2 where "s2 = triggerExplosion cp (translation (bodies s tb)) s1"
  define s3 where "s3 = (if type od = Moon
                   then triggerExplosion cp (translation (bodies s ob)) s2 else s2)"
  define s4 where "s4 = s3\<lparr>trails := clearTrail (propertyName (key td)) (trails s3)\<rparr>"
  have r1: "rng s1 = rng s" unfolding s1_def by (simp add: rng_updateBody)
  have r4: "rng s4 = dropDraws (if type od = Moon then 2 else 1) (rng s)"
    unfolding s4_def s3_def s2_def by (simp add: rng_after_explosions r1)
  have b1: "bodies s1 = (if type od \<in> set validDynamicTypes
                   then (bodies s)(ob := setLinvel (v_combined (linvel (bodies s tb)) (mass (bodies s tb))
                                        (linvel (bodies s ob)) (mass (bodies s ob))) False (bodies s ob))
                   else bodies s)"
    unfolding s1_def by (simp add: bodies_updateBody)
  have b3: "bodies s3 = bodies s1"
    unfolding s3_def s2_def by (simp add: bodies_trigger)
  have b4: "bodies s4 = bodies s1"
    unfolding s4_def by (simp add: b3)
  have utb: "userData (bodies s3 tb) = Some td"
    using ne ud by (simp add: b3 b1 setter_fields)
  have e1: "explosionsOf s1 = explosionsOf s"
    unfolding s1_def by (simp add: explosions_updateBody)
  have e4: "explosionsOf s4 = explosionsOf s @ (cp, translation (bodies s tb)) #
               (if type od = Moon then [(cp, translation (bodies s ob))] else [])"
    unfolding s4_def s3_def s2_def
    by (simp add: explosionsOf_trigger explosionsOf_trails e1)
  obtain bd r' where bd:
    "newPlanet toStr \<lparr>respawn = Some True, typeOverride = None, scaleOverride = None\<rparr>
       (rng s4) = Inr (bd, r')"
    using newPlanet_respawn [of toStr None None "rng s4"] by blast
  define s' where "s' = respawnTarget tb td bd False (s4\<lparr>rng := r'\<rparr>)"
  have res: "handleCollision_Planets toStr ev s = Inr s'"
    using ev cp ud ms bd utb
    unfolding handleCollision_Planets_def s'_def s4_def s3_def s2_def s1_def
    by (simp add: combineVelocity_value [OF cm] bindE_def Let_def split: prod.splits)
  have bs: "bodies s' = (bodies s4)(tb := setLinvel (bd_linearVelocity bd) False
                        (setTranslation (bd_position bd) False
                           ((bodies s4 tb)\<lparr>userData := Some (td\<lparr>key := Some (bd_key bd)\<rparr>)\<rparr>)))"
    unfolding s'_def by (simp add: bodies_respawnTarget)
  have es: "explosionsOf s' = explosionsOf s4"
    unfolding s'_def by (simp add: explosionsOf_def respawnTarget_def Let_def updateBody_def)
  have 1: "userData (bodies s' tb) = Some (td\<lparr>key := Some (bd_key bd)\<rparr>)"
    by (simp add: bs setter_fields)
  have 2: "translation (bodies s' tb) = bd_position bd"
    by (simp add: bs setter_fields)
  have 3: "linvel (bodies s' tb) = bd_linearVelocity bd"
    by (simp add: bs setter_fields)
  have 4: "translation (bodies s' ob) = translation (bodies s ob)"
    using ne by (simp add: bs b4 b1 setter_fields)
  have 5: "userData (bodies s' ob) = userData (bodies s ob)"
    using ne by (simp add: bs b4 b1 setter_fields)
  have "length (explosionsOf s') > length (explosionsOf s)"
    unfolding es e4 by simp
  then have 6: "length (explosions s') > length (explosions s)"
    by (simp add: explosionsOf_length)
  have "respawnedWith bd tb ob td s s'"
    unfolding respawnedWith_def using 1 2 3 4 5 6 by blast
  with res bd show ?thesis unfolding r4 by blast
qed

lemma respawnedWith_changes: "respawnedWith bd tb ob td s s' \<Longrightarrow> s' \<noteq> s"
  by (auto simp: respawnedWith_def)

section \<open>What a gravity pass does\<close>

lemma distanceTo_self: "distanceTo p p = 0"
  by (simp add: distanceTo_def distanceToSquared_def)

lemma applyImpulse_frame:
  "isDynamic (applyImpulse i w b) = isDynamic b"
  "mass (applyImpulse i w b) = mass b"
  "translation (applyImpulse i w b) = translation b"
  "userData (applyImpulse i w b) = userData b"
  "\<not> isDynamic b \<Longrightarrow> applyImpulse i w b = b"
  by (simp_all add: applyImpulse_def wake_def)

lemma gravityPair_cases:
  "gravityPair c m p ob st = Inr st \<or>
   (\<exists>i. isDynamic (st ob) \<and> distanceTo p (translation (st ob)) \<noteq> 0 \<and>
        gravityPair c m p ob st = Inr (st(c := applyImpulse i True (st c))))"
proof -
  have "(distanceTo p (translation (st ob)) * SCALE_FACTOR) ^ 2 \<noteq> 0"
    if "distanceTo p (translation (st ob)) \<noteq> 0"
    using that by (simp add: SCALE_FACTOR_def)
  then show ?thesis
    by (auto simp: gravityPair_def Let_def bindE_def jsDivide_def)
qed

lemma gravityPair_coincident:
  "translation (st ob) = p \<Longrightarrow> gravityPair c m p ob st = Inr st"
  using gravityPair_cases [of c m p ob st] by (auto simp: distanceTo_self)

lemma gravityPair_kinematic_source:
  "\<not> isDynamic (st ob) \<Longrightarrow> gravityPair c m p ob st = Inr st"
  using gravityPair_cases [of c m p ob st] by auto

lemma gravityPair_total: "\<exists>st'. gravityPair c m p ob st = Inr st'"
  using gravityPair_cases [of c m p ob st] by auto

lemma keepsKinematic_refl: "keepsKinematic st st"
  by (simp add: keepsKinematic_def)

lemma gravityPair_keeps:
  assumes "keepsKinematic st0 st" "gravityPair c m p ob st = Inr st'"
  shows "keepsKinematic st0 st'"
proof -
  consider "st' = st" | i where "st' = st(c := applyImpulse i True (st c))"
    using gravityPair_cases [of c m p ob st] assms(2) by auto
  then show ?thesis
  proof cases
    case 1
    then show ?thesis using assms(1) by simp
  next
    case 2
    have d: "isDynamic (st h) = isDynamic (st0 h)" and k: "\<not> isDynamic (st0 h) \<Longrightarrow> st h = st0 h"
      for h using assms(1) unfolding keepsKinematic_def by blast+
    have "isDynamic (st' h) = isDynamic (st0 h) \<and> (\<not> isDynamic (st0 h) \<longrightarrow> st' h = st0 h)"
      for h
    proof (cases "h = c")
      case False
      then show ?thesis using d [of h] k [of h] by (simp add: 2)
    next
      case True
      have a: "isDynamic (st' c) = isDynamic (st0 c)"
        using d [of c] by (simp add: 2 applyImpulse_frame(1))
      have b: "st' c = st0 c" if "\<not> isDynamic (st0 c)"
      proof -
        have "\<not> isDynamic (st c)" using that d [of c] by simp
        then have "applyImpulse i True (st c) = st c" by (rule applyImpulse_frame(5))
        then show ?thesis using k [OF that] by (simp add: 2)
      qed
      show ?thesis unfolding True using a b by blast
    qed
    then show ?thesis unfolding keepsKinematic_def by blast
  qed
qed

lemma forEachE_total:
  assumes "\<And>a s. \<exists>s'. f a s = Inr s'"
  shows "\<exists>s'. forEachE f as s = Inr s'"
proof (induction as arbitrary: s)
  case Nil
  show ?case by simp
next
  case (Cons a as)
  from assms [of a s] obtain s1 where "f a s = Inr s1" by blast
  then show ?case using Cons.IH [of s1] by simp
qed

lemma forEachE_invariant:
  assumes "\<And>a s s'. P s \<Longrightarrow> f a s = Inr s' \<Longrightarrow> P s'"
    and "P s" "forEachE f as s = Inr s'"
  shows "P s'"
  using assms(2,3)
proof (induction as arbitrary: s)
  case Nil
  then show ?case by simp
next
  case (Cons a as)
  show ?case
  proof (cases "f a s")
    case (Inl e)
    then show ?thesis using Cons.prems(2) by simp
  next
    case (Inr s1)
    have "P s1" using assms(1) [OF Cons.prems(1) Inr] .
    moreover have "forEachE f as s1 = Inr s'" using Cons.prems(2) Inr by simp
    ultimately show ?thesis by (rule Cons.IH)
  qed
qed

lemma gravityBody_total: "\<exists>st'. gravityBody g hs c st = Inr st'"
proof -
  have "\<exists>st'. forEachE (gravityPair c m p) hs st = Inr st'" for m p
    by (rule forEachE_total) (rule gravityPair_total)
  then show ?thesis by (simp add: gravityBody_def Let_def)
qed

lemma gravityBody_keeps:
  assumes "keepsKinematic st0 st" "gravityBody g hs c st = Inr st'"
  shows "keepsKinematic st0 st'"
proof (cases "g (st c) \<or> \<not> isDynamic (st c) \<or> mass (st c) = 0")
  case True
  then have "st' = st" using assms(2) by (auto simp: gravityBody_def Let_def split: if_splits)
  then show ?thesis using assms(1) by simp
next
  case False
  then have "forEachE (gravityPair c (mass (st c)) (translation (st c))) hs st = Inr st'"
    using assms(2) by (simp add: gravityBody_def Let_def)
  from forEachE_invariant [where P = "keepsKinematic st0", OF _ assms(1) this]
  show ?thesis using gravityPair_keeps by blast
qed

lemma gravityBody_kinematic_receiver:
  "\<not> isDynamic (st c) \<Longrightarrow> gravityBody g hs c st = Inr st"
  by (simp add: gravityBody_def)

lemma gravityPass_total: "\<exists>st'. gravityPass g w st = Inr st'"
proof -
  have "\<exists>st'. forEachE (gravityBody g hs) cs st = Inr st'" for hs cs
    by (rule forEachE_total) (rule gravityBody_total)
  then show ?thesis by (simp add: gravityPass_def split: option.splits)
qed

lemma gravityPass_keeps:
  assumes "gravityPass g w st = Inr st'"
  shows "keepsKinematic st st'"
proof (cases w)
  case None
  then show ?thesis using assms by (simp add: gravityPass_def keepsKinematic_refl)
next
  case (Some wd)
  show ?thesis
  proof (cases "world_bodies wd")
    case None
    then show ?thesis using assms Some by (simp add: gravityPass_def keepsKinematic_refl)
  next
    case (Some hs)
    then have "forEachE (gravityBody g hs) hs st = Inr st'"
      using assms \<open>w = Some wd\<close> by (simp add: gravityPass_def)
    from forEachE_invariant [where P = "keepsKinematic st", OF _ keepsKinematic_refl this]
    show ?thesis using gravityBody_keeps by blast
  qed
qed

lemma inner_filter:
  assumes "\<forall>h. isDynamic (st h) = D h"
  shows "forEachE (gravityPair c m p) hs st = forEachE (gravityPair c m p) (filter D hs) st"
  using assms
proof (induction hs arbitrary: st)
  case Nil
  show ?case by simp
next
  case (Cons a hs)
  show ?case
  proof (cases "D a")
    case False
    then have "gravityPair c m p a st = Inr st"
      using Cons.prems by (simp add: gravityPair_kinematic_source)
    then show ?thesis using False Cons.IH [OF Cons.prems] by simp
  next
    case True
    obtain st1 where st1: "gravityPair c m p a st = Inr st1"
      using gravityPair_total by blast
    have "keepsKinematic st st1"
      using gravityPair_keeps [OF keepsKinematic_refl st1] .
    then have "\<forall>h. isDynamic (st1 h) = D h"
      using Cons.prems by (simp add: keepsKinematic_def)
    from Cons.IH [OF this] show ?thesis using True st1 by simp
  qed
qed

lemma body_filter:
  assumes "\<forall>h. isDynamic (st h) = D h"
  shows "gravityBody g hs c st = gravityBody g (filter D hs) c st"
  using inner_filter [OF assms] by (simp add: gravityBody_def Let_def)

lemma outer_filter:
  assumes "\<forall>h. isDynamic (st h) = D h"
  shows "forEachE (gravityBody g hs) cs st
         = forEachE (gravityBody g (filter D hs)) (filter D cs) st"
  using assms
proof (induction cs arbitrary: st)
  case Nil
  show ?case by simp
next
  case (Cons a cs)
  show ?case
  proof (cases "D a")
    case False
    then have "gravityBody g hs a st = Inr st"
      using Cons.prems by (simp add: gravityBody_kinematic_receiver)
    then show ?thesis using False Cons.IH [OF Cons.prems] by simp
  next
    case True
    obtain st1 where st1: "gravityBody g hs a st = Inr st1"
      using gravityBody_total by blast
    have "keepsKinematic st st1"
      using gravityBody_keeps [OF keepsKinematic_refl st1] .
    then have d1: "\<forall>h. isDynamic (st1 h) = D h"
      using Cons.prems by (simp add: keepsKinematic_def)
    have "gravityBody g (filter D hs) a st = Inr st1"
      using st1 body_filter [OF Cons.prems, of g hs a] by simp
    then show ?thesis using True st1 Cons.IH [OF d1] by simp
  qed
qed

lemma gravityPass_filter:
  "gravityPass g (Some \<lparr>world_bodies = Some hs\<rparr>) st
   = gravityPass g (Some \<lparr>world_bodies = Some (filter (\<lambda>h. isDynamic (st h)) hs)\<rparr>) st"
  using outer_filter [of st "\<lambda>h. isDynamic (st h)" g hs hs]
  by (simp add: gravityPass_def)

lemma useGravity_noop: "useGravity w st = Inr st"
proof -
  have b: "gravityBody isSleeping_method_truthy hs c s = Inr s" for hs c s
    by (simp add: gravityBody_def isSleeping_method_truthy_def)
  have "forEachE (gravityBody isSleeping_method_truthy hs) cs s = Inr s" for hs cs s
    by (induction cs) (simp_all add: b)
  then show ?thesis
    by (simp add: useGravity_def gravityPass_def split: option.splits)
qed

section \<open>The concrete scene\<close>

lemma scene_bodies:
  "bodies scene 0 = sceneSun" "bodies scene 1 = sceneMoon" "bodies scene 2 = scenePlanet"
  "bodies scene (Suc 0) = sceneMoon"
  by (simp_all add: scene_def sceneStore_def)

lemma planetHitsMoon_fields:
  "manifold planetHitsMoon = Some (contactAt (Vector3 102 0 0))"
  "target planetHitsMoon = Some (Some 2)" "other planetHitsMoon = Some (Some 1)"
  "contactAt (Vector3 102 0 0) 0 = Some (Vector3 102 0 0)"
  "userData (bodies scene 2) = Some \<lparr>type = Planet, key = Some ''instance_planet''\<rparr>"
  "userData (bodies scene 1) = Some \<lparr>type = Moon, key = Some ''instance_moon''\<rparr>"
  "mass (bodies scene 1) > mass (bodies scene 2)" "mass (bodies scene 2) > 0"
  by (simp_all add: planetHitsMoon_def contactAt_def scene_bodies sceneMoon_def scenePlanet_def)

lemma moonHitsSun_fields:
  "manifold moonHitsSun = Some (contactAt (Vector3 15 0 0))"
  "target moonHitsSun = Some (Some 1)" "other moonHitsSun = Some (Some 0)"
  "contactAt (Vector3 15 0 0) 0 = Some (Vector3 15 0 0)"
  "userData (bodies scene 1) = Some \<lparr>type = Moon, key = Some ''instance_moon''\<rparr>"
  "userData (bodies scene 0) = Some \<lparr>type = Sun, key = None\<rparr>"
  "mass (bodies scene 0) > mass (bodies scene 1)" "mass (bodies scene 1) > 0"
  by (simp_all add: moonHitsSun_def contactAt_def scene_bodies sceneMoon_def sceneSun_def)

lemma scene_explosions: "explosionsOf scene = []"
  by (simp add: explosionsOf_def scene_def)

lemma twin_fields:
  "manifold planetHitsTwin = Some (contactAt (Vector3 104 0 0))"
  "target planetHitsTwin = Some (Some 2)" "other planetHitsTwin = Some (Some 3)"
  "userData (bodies scene 2) = Some \<lparr>type = Planet, key = Some ''instance_planet''\<rparr>"
  "userData (bodies scene 3) = Some \<lparr>type = Planet, key = Some ''instance_planet''\<rparr>"
  "mass (bodies scene 3) = mass (bodies scene 2)"
  by (simp_all add: planetHitsTwin_def scene_def sceneStore_def scenePlanet_def)

lemma sceneStore_at:
  "sceneStore 0 = sceneSun" "sceneStore 1 = sceneMoon" "sceneStore (Suc 0) = sceneMoon"
  "sceneStore 2 = scenePlanet" "sceneStore 3 = scenePlanet"
  by (simp_all add: sceneStore_def)

lemma sqrt16: "sqrt 16 = 4"
  using real_sqrt_abs [of 4] by simp

lemma gravityPair_moon_planet:
  "gravityPair 1 500 (Vector3 100 0 0) 2 sceneStore
   = Inr (sceneStore(1 := applyImpulse (Vector3 (GRAVITATIONAL_CONSTANT * 500 * 4 / (4 * SCALE_FACTOR) ^ 2) 0 0) True sceneMoon))"
  by (simp add: gravityPair_def Let_def sceneStore_at scenePlanet_def sceneMoon_def
      distanceTo_def distanceToSquared_def sqrt16 bindE_def jsDivide_def SCALE_FACTOR_def
      subVectors_def normalizeV_def lengthV_def multiplyScalar_def)

section \<open>Claims about the collision handler\<close>

text \<open>
  Claim C1. When a collision is resolved with the heavier body \<open>other\<close> surviving
  (\<open>mass(other) > mass(target)\<close>, on an event that has its manifold with a contact point, both
  rigid bodies and their \<open>userData\<close>, and a target of positive mass), the handler returns, and
  the linear velocity of the survivor is then exactly
  \<open>(v_target * m_target + v_other * m_other) / (m_target + m_other)\<close> if its type is
  \<open>Planet\<close>, \<open>Moon\<close> or \<open>Earth\<close>, and is the velocity it had if it is the Sun. This holds
  for the handler of the consolidated component and for that of \<open>Planets.jsx\<close>. The respawn
  of the target, which follows in the same call, does not touch the survivor.
\<close>

theorem collision_combined_velocity:
  assumes "manifold ev = Some mf" "target ev = Some (Some tb)" "other ev = Some (Some ob)"
    and "mf 0 = Some cp"
    and "userData (bodies s tb) = Some td" "userData (bodies s ob) = Some od"
    and "mass (bodies s ob) > mass (bodies s tb)" "mass (bodies s tb) > 0"
  shows "(\<exists>s'. handleCollision toStr ev s = Inr s' \<and>
            (type od \<in> {Planet, Moon, Earth} \<longrightarrow>
               linvel (bodies s' ob) =
                 v_combined (linvel (bodies s tb)) (mass (bodies s tb))
                   (linvel (bodies s ob)) (mass (bodies s ob))) \<and>
            (type od = Sun \<longrightarrow> linvel (bodies s' ob) = linvel (bodies s ob))) \<and>
         (\<exists>s'. handleCollision_Planets toStr ev s = Inr s' \<and>
            (type od \<in> {Planet, Moon, Earth} \<longrightarrow>
               linvel (bodies s' ob) =
                 v_combined (linvel (bodies s tb)) (mass (bodies s tb))
                   (linvel (bodies s ob)) (mass (bodies s ob))) \<and>
            (type od = Sun \<longrightarrow> linvel (bodies s' ob) = linvel (bodies s ob)))"
proof -
  have m0: "mass (bodies s tb) \<ge> 0" using assms(8) by simp
  have vt: "(type od \<in> set validDynamicTypes) = (type od \<in> {Planet, Moon, Earth})"
    by (simp add: validDynamicTypes_def)
  have sun: "type od = Sun \<Longrightarrow> type od \<notin> set validDynamicTypes"
    by (simp add: validDynamicTypes_def)
  from handleCollision_effects [OF assms, of toStr]
  have core: "\<exists>s'. handleCollision toStr ev s = Inr s' \<and>
            (type od \<in> {Planet, Moon, Earth} \<longrightarrow>
               linvel (bodies s' ob) =
                 v_combined (linvel (bodies s tb)) (mass (bodies s tb))
                   (linvel (bodies s ob)) (mass (bodies s ob))) \<and>
            (type od = Sun \<longrightarrow> linvel (bodies s' ob) = linvel (bodies s ob))"
    using vt sun by auto
  from handleCollision_Planets_effects [OF assms(1-7) m0, of toStr]
  have legacy: "\<exists>s'. handleCollision_Planets toStr ev s = Inr s' \<and>
            (type od \<in> {Planet, Moon, Earth} \<longrightarrow>
               linvel (bodies s' ob) =
                 v_combined (linvel (bodies s tb)) (mass (bodies s tb))
                   (linvel (bodies s ob)) (mass (bodies s ob))) \<and>
            (type od = Sun \<longrightarrow> linvel (bodies s' ob) = linvel (bodies s ob))"
    using vt sun by auto
  from core legacy show ?thesis by blast
qed

theorem collision_combined_velocity_witness:
  "mass (bodies scene 1) > mass (bodies scene 2) \<and> mass (bodies scene 2) > 0 \<and>
   mass (bodies scene 0) > mass (bodies scene 1) \<and>
   (\<exists>s'. handleCollision halfToStr planetHitsMoon scene = Inr s' \<and>
          linvel (bodies s' 1) = Vector3 0 0 (41 / 14)) \<and>
   (\<exists>s'. handleCollision_Planets halfToStr planetHitsMoon scene = Inr s' \<and>
          linvel (bodies s' 1) = Vector3 0 0 (41 / 14)) \<and>
   (\<exists>s'. handleCollision halfToStr moonHitsSun scene = Inr s' \<and>
          linvel (bodies s' 0) = Vector3 0 0 0) \<and>
   (\<exists>s'. handleCollision_Planets halfToStr moonHitsSun scene = Inr s' \<and>
          linvel (bodies s' 0) = Vector3 0 0 0)"
  using collision_combined_velocity [OF planetHitsMoon_fields, of halfToStr]
    collision_combined_velocity [OF moonHitsSun_fields, of halfToStr]
    planetHitsMoon_fields(7,8) moonHitsSun_fields(7)
  by (simp add: scene_bodies sceneMoon_def scenePlanet_def sceneSun_def v_combined_def)

text \<open>
  Claim C6. A resolved collision (hypotheses as for C1) appends to the explosions one event at
  the contact point that looks at the position the destroyed body had, and after it a second
  event, at the contact point and looking at the centre of the survivor, exactly when the type
  of the survivor is \<open>Moon\<close>. Nothing else is appended, in either handler.
\<close>

theorem collision_explosions:
  assumes "manifold ev = Some mf" "target ev = Some (Some tb)" "other ev = Some (Some ob)"
    and "mf 0 = Some cp"
    and "userData (bodies s tb) = Some td" "userData (bodies s ob) = Some od"
    and "mass (bodies s ob) > mass (bodies s tb)" "mass (bodies s tb) > 0"
  shows "(\<exists>s'. handleCollision toStr ev s = Inr s' \<and>
            explosionsOf s' =
              explosionsOf s @ [(cp, translation (bodies s tb))] @
                (if type od = Moon then [(cp, translation (bodies s ob))] else [])) \<and>
         (\<exists>s'. handleCollision_Planets toStr ev s = Inr s' \<and>
            explosionsOf s' =
              explosionsOf s @ [(cp, translation (bodies s tb))] @
                (if type od = Moon then [(cp, translation (bodies s ob))] else []))"
proof -
  have m0: "mass (bodies s tb) \<ge> 0" using assms(8) by simp
  from handleCollision_effects [OF assms, of toStr]
  have core: "\<exists>s'. handleCollision toStr ev s = Inr s' \<and>
            explosionsOf s' =
              explosionsOf s @ [(cp, translation (bodies s tb))] @
                (if type od = Moon then [(cp, translation (bodies s ob))] else [])"
    by auto
  from handleCollision_Planets_effects [OF assms(1-7) m0, of toStr]
  have legacy: "\<exists>s'. handleCollision_Planets toStr ev s = Inr s' \<and>
            explosionsOf s' =
              explosionsOf s @ [(cp, translation (bodies s tb))] @
                (if type od = Moon then [(cp, translation (bodies s ob))] else [])"
    by auto
  from core legacy show ?thesis by blast
qed

theorem collision_explosions_witness:
  "mass (bodies scene 1) > mass (bodies scene 2) \<and> mass (bodies scene 2) > 0 \<and>
   mass (bodies scene 0) > mass (bodies scene 1) \<and>
   (\<exists>s'. handleCollision halfToStr planetHitsMoon scene = Inr s' \<and>
          explosionsOf s' = [(Vector3 102 0 0, Vector3 104 0 0), (Vector3 102 0 0, Vector3 100 0 0)]) \<and>
   (\<exists>s'. handleCollision_Planets halfToStr planetHitsMoon scene = Inr s' \<and>
          explosionsOf s' = [(Vector3 102 0 0, Vector3 104 0 0), (Vector3 102 0 0, Vector3 100 0 0)]) \<and>
   (\<exists>s'. handleCollision halfToStr moonHitsSun scene = Inr s' \<and>
          explosionsOf s' = [(Vector3 15 0 0, Vector3 100 0 0)]) \<and>
   (\<exists>s'. handleCollision_Planets halfToStr moonHitsSun scene = Inr s' \<and>
          explosionsOf s' = [(Vector3 15 0 0, Vector3 100 0 0)])"
  using collision_explosions [OF planetHitsMoon_fields, of halfToStr]
    collision_explosions [OF moonHitsSun_fields, of halfToStr]
    planetHitsMoon_fields(7,8) moonHitsSun_fields(7)
  by (simp add: scene_bodies sceneMoon_def scenePlanet_def sceneSun_def scene_explosions)



text \<open>
  Claim C2. On a collision event that the resolver processes (the event has its manifold with
  a first contact point, both rigid bodies and their \<open>userData\<close>, and the target has a
  positive mass), the target is destroyed and respawned if and only if
  \<open>mass(other) > mass(target)\<close>. In that case the handler returns a state in which the
  target has the key, the position and the velocity of fresh body data (made by
  \<open>createBodyData\<close>, by \<open>newPlanet\<close> in \<open>Planets.jsx\<close>, from the draws that follow those of
  the explosions), an explosion has been added, and the other body is where and what it was:
  the target is the one respawned, never the other. In every other case, so when the two
  masses are equal, the handler returns the state it was given: nothing is mutated.
\<close>

theorem respawn_iff_heavier:
  assumes "manifold ev = Some mf" "target ev = Some (Some tb)" "other ev = Some (Some ob)"
    and "mf 0 = Some cp"
    and "userData (bodies s tb) = Some td" "userData (bodies s ob) = Some od"
    and "mass (bodies s tb) > 0"
  shows "(if mass (bodies s ob) > mass (bodies s tb)
          then \<exists>s' bd r'.
                 createBodyData toStr
                   \<lparr>respawn = Some True, typeOverride = Some Planet, scaleOverride = None\<rparr>
                   (dropDraws (if type od = Moon then 2 else 1) (rng s)) = Inr (bd, r') \<and>
                 handleCollision toStr ev s = Inr s' \<and> s' \<noteq> s \<and>
                 respawnedWith bd tb ob td s s'
          else handleCollision toStr ev s = Inr s) \<and>
         (if mass (bodies s ob) > mass (bodies s tb)
          then \<exists>s' bd r'.
                 newPlanet toStr
                   \<lparr>respawn = Some True, typeOverride = None, scaleOverride = None\<rparr>
                   (dropDraws (if type od = Moon then 2 else 1) (rng s)) = Inr (bd, r') \<and>
                 handleCollision_Planets toStr ev s = Inr s' \<and> s' \<noteq> s \<and>
                 respawnedWith bd tb ob td s s'
          else handleCollision_Planets toStr ev s = Inr s) \<and>
         ((handleCollision toStr ev s \<noteq> Inr s) = (mass (bodies s ob) > mass (bodies s tb))) \<and>
         ((handleCollision_Planets toStr ev s \<noteq> Inr s)
            = (mass (bodies s ob) > mass (bodies s tb))) \<and>
         (mass (bodies s ob) = mass (bodies s tb) \<longrightarrow>
            handleCollision toStr ev s = Inr s \<and> handleCollision_Planets toStr ev s = Inr s)"
proof (cases "mass (bodies s ob) > mass (bodies s tb)")
  case True
  have m0: "mass (bodies s tb) \<ge> 0" using assms(7) by simp
  from handleCollision_respawn [OF assms(1-6) True assms(7), of toStr]
  obtain s' bd r' where c:
    "createBodyData toStr
       \<lparr>respawn = Some True, typeOverride = Some Planet, scaleOverride = None\<rparr>
       (dropDraws (if type od = Moon then 2 else 1) (rng s)) = Inr (bd, r')"
    "handleCollision toStr ev s = Inr s'" "respawnedWith bd tb ob td s s'"
    by blast
  from handleCollision_Planets_respawn [OF assms(1-6) True m0, of toStr]
  obtain p' pd q' where l:
    "newPlanet toStr
       \<lparr>respawn = Some True, typeOverride = None, scaleOverride = None\<rparr>
       (dropDraws (if type od = Moon then 2 else 1) (rng s)) = Inr (pd, q')"
    "handleCollision_Planets toStr ev s = Inr p'" "respawnedWith pd tb ob td s p'"
    by blast
  have cn: "s' \<noteq> s" using c(3) by (rule respawnedWith_changes)
  have ln: "p' \<noteq> s" using l(3) by (rule respawnedWith_changes)
  have 1: "\<exists>s' bd r'.
                 createBodyData toStr
                   \<lparr>respawn = Some True, typeOverride = Some Planet, scaleOverride = None\<rparr>
                   (dropDraws (if type od = Moon then 2 else 1) (rng s)) = Inr (bd, r') \<and>
                 handleCollision toStr ev s = Inr s' \<and> s' \<noteq> s \<and>
                 respawnedWith bd tb ob td s s'"
    using c cn by blast
  have 2: "\<exists>s' bd r'.
                 newPlanet toStr
                   \<lparr>respawn = Some True, typeOverride = None, scaleOverride = None\<rparr>
                   (dropDraws (if type od = Moon then 2 else 1) (rng s)) = Inr (bd, r') \<and>
                 handleCollision_Planets toStr ev s = Inr s' \<and> s' \<noteq> s \<and>
                 respawnedWith bd tb ob td s s'"
    using l ln by blast
  have 3: "handleCollision toStr ev s \<noteq> Inr s" using c(2) cn by simp
  have 4: "handleCollision_Planets toStr ev s \<noteq> Inr s" using l(2) ln by simp
  have 5: "mass (bodies s ob) \<noteq> mass (bodies s tb)" using True by simp
  show ?thesis
    unfolding if_P [OF True] using 1 2 3 4 5 True by blast
next
  case False
  have a: "handleCollision toStr ev s = Inr s"
    using handleCollision_ignored [OF assms(1-3), of s toStr] False by blast
  have b: "handleCollision_Planets toStr ev s = Inr s"
    using handleCollision_Planets_ignored [OF assms(2,3) False] .
  show ?thesis
    unfolding if_not_P [OF False] using a b False by blast
qed

theorem respawn_iff_heavier_witness:
  "mass (bodies scene 2) > 0 \<and> mass (bodies scene 1) > mass (bodies scene 2) \<and>
   (\<exists>s'. handleCollision halfToStr planetHitsMoon scene = Inr s' \<and> s' \<noteq> scene \<and>
         userData (bodies s' 2) = Some \<lparr>type = Planet, key = Some ''instance_i''\<rparr> \<and>
         horizontalRadius (translation (bodies s' 2)) = 375 \<and>
         translation (bodies s' 1) = Vector3 100 0 0 \<and>
         userData (bodies s' 1) = Some \<lparr>type = Moon, key = Some ''instance_moon''\<rparr>) \<and>
   (\<exists>s'. handleCollision_Planets halfToStr planetHitsMoon scene = Inr s' \<and> s' \<noteq> scene \<and>
         userData (bodies s' 2) = Some \<lparr>type = Planet, key = Some ''instance_0.5''\<rparr> \<and>
         horizontalRadius (translation (bodies s' 2)) = 375 \<and>
         translation (bodies s' 1) = Vector3 100 0 0 \<and>
         userData (bodies s' 1) = Some \<lparr>type = Moon, key = Some ''instance_moon''\<rparr>) \<and>
   mass (bodies scene 3) = mass (bodies scene 2) \<and>
   handleCollision halfToStr planetHitsTwin scene = Inr scene \<and>
   handleCollision_Planets halfToStr planetHitsTwin scene = Inr scene"
proof -
  have twin: "contactAt (Vector3 104 0 0) 0 = Some (Vector3 104 0 0)"
    by (simp add: contactAt_def)
  have t: "handleCollision halfToStr planetHitsTwin scene = Inr scene \<and>
           handleCollision_Planets halfToStr planetHitsTwin scene = Inr scene"
    using respawn_iff_heavier [OF twin_fields(1-3) twin twin_fields(4,5) planetHitsMoon_fields(8),
        of halfToStr] twin_fields(6)
    by simp
  have k: "\<exists>bd r'. createBodyData halfToStr
               \<lparr>respawn = Some True, typeOverride = Some Planet, scaleOverride = None\<rparr>
               (dropDraws 2 halfRng) = Inr (bd, r') \<and> bd_key bd = ''instance_i'' \<and>
             horizontalRadius (bd_position bd) = 375"
    using createBodyData_respawn [of halfToStr "Some Planet" None "dropDraws 2 halfRng"]
    by (auto simp: halfToStr_def substr_def SPAWN_RADIUS_def)
  have kl: "\<exists>bd r'. newPlanet halfToStr
               \<lparr>respawn = Some True, typeOverride = None, scaleOverride = None\<rparr>
               (dropDraws 2 halfRng) = Inr (bd, r') \<and> bd_key bd = ''instance_0.5'' \<and>
             horizontalRadius (bd_position bd) = 375"
    using newPlanet_respawn [of halfToStr None None "dropDraws 2 halfRng"]
    by (auto simp: halfToStr_def SPAWN_RADIUS_def)
  have r: "rng scene = halfRng" by (simp add: scene_def)
  have m: "(\<exists>s'. handleCollision halfToStr planetHitsMoon scene = Inr s' \<and> s' \<noteq> scene \<and>
         userData (bodies s' 2) = Some \<lparr>type = Planet, key = Some ''instance_i''\<rparr> \<and>
         horizontalRadius (translation (bodies s' 2)) = 375 \<and>
         translation (bodies s' 1) = Vector3 100 0 0 \<and>
         userData (bodies s' 1) = Some \<lparr>type = Moon, key = Some ''instance_moon''\<rparr>) \<and>
   (\<exists>s'. handleCollision_Planets halfToStr planetHitsMoon scene = Inr s' \<and> s' \<noteq> scene \<and>
         userData (bodies s' 2) = Some \<lparr>type = Planet, key = Some ''instance_0.5''\<rparr> \<and>
         horizontalRadius (translation (bodies s' 2)) = 375 \<and>
         translation (bodies s' 1) = Vector3 100 0 0 \<and>
         userData (bodies s' 1) = Some \<lparr>type = Moon, key = Some ''instance_moon''\<rparr>)"
    using respawn_iff_heavier [OF planetHitsMoon_fields(1-6,8), of halfToStr]
      planetHitsMoon_fields(7) k kl
    by (auto simp: respawnedWith_def r scene_bodies sceneMoon_def)
  from t m planetHitsMoon_fields(7,8) twin_fields(6) show ?thesis by blast
qed

text \<open>
  Claim C4 says that a respawned body has the type \<open>Planet\<close> whatever it was. The respawn
  assigns the new key to the \<open>userData\<close> of the rigid body and nothing else: the type of the
  new body data is dropped. On the scene the Moon, destroyed by the Sun, is still of type
  \<open>Moon\<close> after either handler.
\<close>

theorem respawned_moon_keeps_type:
  "typeAfter 1 (handleCollision halfToStr moonHitsSun scene) = Some Moon \<and>
   typeAfter 1 (handleCollision_Planets halfToStr moonHitsSun scene) = Some Moon"
proof -
  have m0: "mass (bodies scene 1) \<ge> 0" using moonHitsSun_fields(8) by simp
  from handleCollision_effects [OF moonHitsSun_fields, of halfToStr]
  have a: "typeAfter 1 (handleCollision halfToStr moonHitsSun scene) = Some Moon"
    by (auto simp: typeAfter_def)
  from handleCollision_Planets_effects [OF moonHitsSun_fields(1-7) m0, of halfToStr]
  have b: "typeAfter 1 (handleCollision_Planets halfToStr moonHitsSun scene) = Some Moon"
    by (auto simp: typeAfter_def)
  from a b show ?thesis by blast
qed

text \<open>
  Claim C5, as stated: a respawned body is placed with \<open>isEntry = false\<close>, at a horizontal
  radius in \<open>[SUN_RADIUS * 3, SUN_RADIUS * 3 + SPAWN_RADIUS)\<close>. \<open>createBodyData\<close> passes its
  \<open>respawn\<close> option as \<open>isEntry\<close>, so the body data of a respawn lie at the entry radius
  \<open>SPAWN_RADIUS * 1.5 = 375\<close>, outside that interval.
\<close>

theorem respawn_radius_counterexample:
  "spawnRadius (createBodyData halfToStr
                  \<lparr>respawn = Some True, typeOverride = Some Planet, scaleOverride = None\<rparr>
                  halfRng) = Some 375 \<and>
   \<not> (375 < SUN_RADIUS * 3 + SPAWN_RADIUS)"
  using createBodyData_respawn [of halfToStr "Some Planet" None halfRng]
  by (auto simp: spawnRadius_def SPAWN_RADIUS_def SUN_RADIUS_def)

text \<open>
  Claim C5, amended. Every respawned body is repositioned with \<open>isEntry = true\<close>: the body data
  that \<open>createBodyData\<close> makes for a respawn, and the position of the target after a resolved
  collision, have the horizontal radius \<open>SPAWN_RADIUS * 1.5\<close>. The interval
  \<open>[SUN_RADIUS * 3, SUN_RADIUS * 3 + SPAWN_RADIUS)\<close> is that of the bodies created without
  \<open>respawn\<close>, given a radius draw in \<open>[0, 1)\<close> (the third draw, after those of the key and
  the angle).
\<close>

theorem respawn_at_entry_radius:
  "(\<exists>bd r'. createBodyData toStr
               \<lparr>respawn = Some True, typeOverride = ty, scaleOverride = so\<rparr> r = Inr (bd, r') \<and>
             horizontalRadius (bd_position bd) = SPAWN_RADIUS * 1.5) \<and>
   (manifold ev = Some mf \<and> target ev = Some (Some tb) \<and> other ev = Some (Some ob) \<and>
    mf 0 = Some cp \<and> userData (bodies s tb) = Some td \<and> userData (bodies s ob) = Some od \<and>
    mass (bodies s ob) > mass (bodies s tb) \<and> mass (bodies s tb) > 0 \<longrightarrow>
      (\<exists>s'. handleCollision toStr ev s = Inr s' \<and>
            horizontalRadius (translation (bodies s' tb)) = SPAWN_RADIUS * 1.5) \<and>
      (\<exists>s'. handleCollision_Planets toStr ev s = Inr s' \<and>
            horizontalRadius (translation (bodies s' tb)) = SPAWN_RADIUS * 1.5)) \<and>
   (0 \<le> r 2 \<and> r 2 < 1 \<longrightarrow>
      (\<exists>bd r'. createBodyData toStr
                  \<lparr>respawn = Some False, typeOverride = ty, scaleOverride = so\<rparr> r
                = Inr (bd, r') \<and>
                SUN_RADIUS * 3 \<le> horizontalRadius (bd_position bd) \<and>
                horizontalRadius (bd_position bd) < SUN_RADIUS * 3 + SPAWN_RADIUS))"
proof -
  have a: "\<exists>bd r'. createBodyData toStr
               \<lparr>respawn = Some True, typeOverride = ty, scaleOverride = so\<rparr> r = Inr (bd, r') \<and>
             horizontalRadius (bd_position bd) = SPAWN_RADIUS * 1.5"
    using createBodyData_respawn [of toStr ty so r] by blast
  have b: "(\<exists>s'. handleCollision toStr ev s = Inr s' \<and>
            horizontalRadius (translation (bodies s' tb)) = SPAWN_RADIUS * 1.5) \<and>
      (\<exists>s'. handleCollision_Planets toStr ev s = Inr s' \<and>
            horizontalRadius (translation (bodies s' tb)) = SPAWN_RADIUS * 1.5)"
    if h: "manifold ev = Some mf" "target ev = Some (Some tb)" "other ev = Some (Some ob)"
      "mf 0 = Some cp" "userData (bodies s tb) = Some td" "userData (bodies s ob) = Some od"
      "mass (bodies s ob) > mass (bodies s tb)" "mass (bodies s tb) > 0"
  proof -
    have m0: "mass (bodies s tb) \<ge> 0" using h(8) by simp
    from handleCollision_effects [OF h, of toStr]
      handleCollision_Planets_effects [OF h(1-7) m0, of toStr]
    show ?thesis by blast
  qed
  have c: "\<exists>bd r'. createBodyData toStr
                  \<lparr>respawn = Some False, typeOverride = ty, scaleOverride = so\<rparr> r
                = Inr (bd, r') \<and>
                SUN_RADIUS * 3 \<le> horizontalRadius (bd_position bd) \<and>
                horizontalRadius (bd_position bd) < SUN_RADIUS * 3 + SPAWN_RADIUS"
    if "0 \<le> r 2" "r 2 < 1"
    using createBodyData_initial [of r toStr ty so] that by blast
  from a b c show ?thesis by blast
qed

theorem respawn_at_entry_radius_witness:
  "(\<exists>s'. handleCollision halfToStr planetHitsMoon scene = Inr s' \<and>
         horizontalRadius (translation (bodies s' 2)) = 375) \<and>
   (\<exists>s'. handleCollision_Planets halfToStr planetHitsMoon scene = Inr s' \<and>
         horizontalRadius (translation (bodies s' 2)) = 375) \<and>
   0 \<le> halfRng 2 \<and> halfRng 2 < 1 \<and>
   (\<exists>bd r'. createBodyData halfToStr
               \<lparr>respawn = Some False, typeOverride = None, scaleOverride = None\<rparr> halfRng
             = Inr (bd, r') \<and>
             45 \<le> horizontalRadius (bd_position bd) \<and>
             horizontalRadius (bd_position bd) < 295)"
  using respawn_at_entry_radius [of halfToStr None None halfRng planetHitsMoon
      "contactAt (Vector3 102 0 0)" 2 1 "Vector3 102 0 0" scene
      "\<lparr>type = Planet, key = Some ''instance_planet''\<rparr>"
      "\<lparr>type = Moon, key = Some ''instance_moon''\<rparr>"]
    planetHitsMoon_fields
  by (simp add: halfRng_def SPAWN_RADIUS_def SUN_RADIUS_def)

section \<open>Claims about the trails\<close>

text \<open>
  Claim C10. \<open>addTrailPoint\<close> appends the position to the trail of the key when the key has no
  trail or an empty one, or when the squared distance of the position from the last recorded
  point exceeds 1 (a trail of 300 points first loses its oldest point); in every other case it
  returns the whole map of trails unchanged.
\<close>

theorem trail_point_decimated:
  "(t k = None \<or> t k = Some [] \<longrightarrow> addTrailPoint k p t = t(k \<mapsto> [p])) \<and>
   (t k = Some ps \<and> ps \<noteq> [] \<and> distanceToSquared (last ps) p > 1 \<longrightarrow>
      addTrailPoint k p t = t(k \<mapsto> (if length ps \<ge> 300 then drop 1 ps else ps) @ [p])) \<and>
   (t k = Some ps \<and> ps \<noteq> [] \<and> \<not> distanceToSquared (last ps) p > 1 \<longrightarrow>
      addTrailPoint k p t = t)"
  by (auto simp: addTrailPoint_cases)

theorem trail_point_decimated_witness:
  "addTrailPoint ''a'' (Vector3 1 2 3) Map.empty = [''a'' \<mapsto> [Vector3 1 2 3]] \<and>
   distanceToSquared (last [Vector3 0 0 0]) (Vector3 2 0 0) > 1 \<and>
   addTrailPoint ''a'' (Vector3 2 0 0) [''a'' \<mapsto> [Vector3 0 0 0]]
     = [''a'' \<mapsto> [Vector3 0 0 0, Vector3 2 0 0]] \<and>
   \<not> distanceToSquared (last [Vector3 0 0 0]) (Vector3 1 0 0) > 1 \<and>
   addTrailPoint ''a'' (Vector3 1 0 0) [''a'' \<mapsto> [Vector3 0 0 0]] = [''a'' \<mapsto> [Vector3 0 0 0]]"
  using trail_point_decimated [of Map.empty "''a''" "Vector3 1 2 3" "[]"]
    trail_point_decimated [of "[''a'' \<mapsto> [Vector3 0 0 0]]" "''a''" "Vector3 2 0 0" "[Vector3 0 0 0]"]
    trail_point_decimated [of "[''a'' \<mapsto> [Vector3 0 0 0]]" "''a''" "Vector3 1 0 0" "[Vector3 0 0 0]"]
  by (simp add: distanceToSquared_def)

text \<open>
  Claim C9. From the empty initial state, after any sequence of \<open>addTrailPoint\<close> and
  \<open>clearTrail\<close> calls, no trail has more than 300 points. A point added to a trail of 300
  points drops the oldest point first, so that the trail has 300 points again. \<open>clearTrail\<close>
  removes the key, and a resolved collision (hypotheses as for C1) leaves no trail under the
  key that the destroyed body had.
\<close>

theorem trail_capped_at_300:
  "trailsBounded (runTrailCalls cs Map.empty) \<and>
   (t k = Some ps \<and> length ps = 300 \<and> distanceToSquared (last ps) p > 1 \<longrightarrow>
      addTrailPoint k p t k = Some (drop 1 ps @ [p]) \<and> length (drop 1 ps @ [p]) = 300) \<and>
   clearTrail k t k = None \<and>
   (manifold ev = Some mf \<and> target ev = Some (Some tb) \<and> other ev = Some (Some ob) \<and>
    mf 0 = Some cp \<and> userData (bodies s tb) = Some td \<and> userData (bodies s ob) = Some od \<and>
    mass (bodies s ob) > mass (bodies s tb) \<and> mass (bodies s tb) > 0 \<longrightarrow>
      (\<exists>s'. handleCollision toStr ev s = Inr s' \<and> trails s' (propertyName (key td)) = None) \<and>
      (\<exists>s'. handleCollision_Planets toStr ev s = Inr s' \<and>
            trails s' (propertyName (key td)) = None))"
proof -
  have a: "trailsBounded (runTrailCalls cs Map.empty)"
    by (rule runTrailCalls_bounded [OF empty_bounded])
  have b: "addTrailPoint k p t k = Some (drop 1 ps @ [p]) \<and> length (drop 1 ps @ [p]) = 300"
    if "t k = Some ps" "length ps = 300" "distanceToSquared (last ps) p > 1"
    using that by (auto simp: addTrailPoint_cases)
  have c: "clearTrail k t k = None"
    by (simp add: clearTrail_def)
  have d: "(\<exists>s'. handleCollision toStr ev s = Inr s' \<and> trails s' (propertyName (key td)) = None) \<and>
      (\<exists>s'. handleCollision_Planets toStr ev s = Inr s' \<and>
            trails s' (propertyName (key td)) = None)"
    if h: "manifold ev = Some mf" "target ev = Some (Some tb)" "other ev = Some (Some ob)"
      "mf 0 = Some cp" "userData (bodies s tb) = Some td" "userData (bodies s ob) = Some od"
      "mass (bodies s ob) > mass (bodies s tb)" "mass (bodies s tb) > 0"
  proof -
    have m0: "mass (bodies s tb) \<ge> 0" using h(8) by simp
    from handleCollision_effects [OF h, of toStr]
      handleCollision_Planets_effects [OF h(1-7) m0, of toStr]
    show ?thesis by blast
  qed
  from a b c d show ?thesis by blast
qed

theorem trail_capped_at_300_witness:
  "trailsBounded (runTrailCalls [AddTrailPoint ''a'' (Vector3 0 0 0), ClearTrail ''a''] Map.empty) \<and>
   length (replicate 300 (Vector3 0 0 0)) = 300 \<and>
   distanceToSquared (last (replicate 300 (Vector3 0 0 0))) (Vector3 2 0 0) > 1 \<and>
   addTrailPoint ''a'' (Vector3 2 0 0) [''a'' \<mapsto> replicate 300 (Vector3 0 0 0)] ''a''
     = Some (replicate 299 (Vector3 0 0 0) @ [Vector3 2 0 0]) \<and>
   (\<exists>s'. handleCollision halfToStr planetHitsMoon scene = Inr s' \<and>
         trails s' ''instance_planet'' = None) \<and>
   (\<exists>s'. handleCollision_Planets halfToStr planetHitsMoon scene = Inr s' \<and>
         trails s' ''instance_planet'' = None)"
  using trail_capped_at_300 [of "[AddTrailPoint ''a'' (Vector3 0 0 0), ClearTrail ''a'']"
      "[''a'' \<mapsto> replicate 300 (Vector3 0 0 0)]" "''a''" "replicate 300 (Vector3 0 0 0)"
      "Vector3 2 0 0" planetHitsMoon
      "contactAt (Vector3 102 0 0)" 2 1 "Vector3 102 0 0" scene
      "\<lparr>type = Planet, key = Some ''instance_planet''\<rparr>"
      "\<lparr>type = Moon, key = Some ''instance_moon''\<rparr>" halfToStr]
    planetHitsMoon_fields
  by (simp add: distanceToSquared_def propertyName_def)

section \<open>Claims about the gravity integrator\<close>

text \<open>
  Claim C3, as stated: in every pass the Sun gives a gravitational impulse to every dynamic
  body. In the world of the Sun and the planet, the planet is dynamic, awake, has a mass and
  is away from the Sun, and the pass leaves every body as it was. It does so as the hook runs
  it, and also when the first guard of the outer callback calls \<open>isSleeping()\<close>: the inner
  callback skips every body that is not dynamic, and the Sun is kinematic.
\<close>

theorem sun_gravity_counterexample:
  "isDynamic (sceneStore 2) \<and> \<not> isSleeping (sceneStore 2) \<and> mass (sceneStore 2) \<noteq> 0 \<and>
   mass (sceneStore 0) \<noteq> 0 \<and> translation (sceneStore 2) \<noteq> translation (sceneStore 0) \<and>
   useGravity sunAndPlanet sceneStore = Inr sceneStore \<and>
   gravityPass isSleeping sunAndPlanet sceneStore = Inr sceneStore"
proof -
  have sun: "\<not> isDynamic (sceneStore 0)" by (simp add: sceneStore_at sceneSun_def)
  have "gravityPass isSleeping sunAndPlanet sceneStore
        = gravityPass isSleeping (Some \<lparr>world_bodies = Some [2]\<rparr>) sceneStore"
    unfolding sunAndPlanet_def gravityPass_filter [of isSleeping "[0, 2]" sceneStore]
    by (simp add: sceneStore_at sceneSun_def scenePlanet_def)
  also have "\<dots> = Inr sceneStore"
    by (simp add: gravityPass_def gravityBody_def gravityPair_def Let_def)
  finally show ?thesis
    by (simp add: useGravity_noop sceneStore_at sceneSun_def scenePlanet_def)
qed

text \<open>
  Claim C3, amended. In every pass only dynamic bodies take part. A body that is not dynamic,
  as the kinematic Sun, is skipped as a source by the inner callback and as a receiver by the
  outer one: the pass returns, leaves every such body (so the velocity of the Sun) as it was,
  and has the result that it has on the world without those bodies. This holds whatever the
  first guard of the outer callback answers (\<open>g\<close>), hence for the hook as written.
\<close>

theorem gravity_skips_kinematic:
  "(\<exists>st'. gravityPass g w st = Inr st' \<and> (\<forall>h. \<not> isDynamic (st h) \<longrightarrow> st' h = st h)) \<and>
   (\<exists>st'. useGravity w st = Inr st' \<and> (\<forall>h. \<not> isDynamic (st h) \<longrightarrow> st' h = st h)) \<and>
   (\<not> isDynamic (st ob) \<longrightarrow> gravityPair c m p ob st = Inr st) \<and>
   gravityPass g (Some \<lparr>world_bodies = Some hs\<rparr>) st
     = gravityPass g (Some \<lparr>world_bodies = Some (filter (\<lambda>h. isDynamic (st h)) hs)\<rparr>) st"
proof -
  have pass: "\<exists>st'. gravityPass g' w st = Inr st' \<and> (\<forall>h. \<not> isDynamic (st h) \<longrightarrow> st' h = st h)"
    for g'
  proof -
    obtain st' where st': "gravityPass g' w st = Inr st'"
      using gravityPass_total by blast
    from gravityPass_keeps [OF st'] have "\<forall>h. \<not> isDynamic (st h) \<longrightarrow> st' h = st h"
      unfolding keepsKinematic_def by blast
    with st' show ?thesis by blast
  qed
  have a: "\<exists>st'. gravityPass g w st = Inr st' \<and> (\<forall>h. \<not> isDynamic (st h) \<longrightarrow> st' h = st h)"
    by (rule pass)
  have b: "\<exists>st'. useGravity w st = Inr st' \<and> (\<forall>h. \<not> isDynamic (st h) \<longrightarrow> st' h = st h)"
    unfolding useGravity_def by (rule pass)
  have c: "\<not> isDynamic (st ob) \<longrightarrow> gravityPair c m p ob st = Inr st"
    by (simp add: gravityPair_kinematic_source)
  from a b c gravityPass_filter [of g hs st] show ?thesis by blast
qed

theorem gravity_skips_kinematic_witness:
  "\<not> isDynamic (sceneStore 0) \<and>
   (\<exists>st'. gravityPass isSleeping sceneWorld sceneStore = Inr st' \<and> st' 0 = sceneStore 0) \<and>
   (\<exists>st'. useGravity sceneWorld sceneStore = Inr st' \<and> st' 0 = sceneStore 0) \<and>
   gravityPair 2 (mass (sceneStore 2)) (translation (sceneStore 2)) 0 sceneStore = Inr sceneStore \<and>
   gravityPass isSleeping (Some \<lparr>world_bodies = Some [0, 1, 2]\<rparr>) sceneStore
     = gravityPass isSleeping (Some \<lparr>world_bodies = Some [1, 2]\<rparr>) sceneStore"
  using gravity_skips_kinematic [of isSleeping sceneWorld sceneStore 0 2 "mass (sceneStore 2)"
      "translation (sceneStore 2)" "[0, 1, 2]"]
  by (auto simp: sceneStore_at sceneSun_def sceneMoon_def scenePlanet_def)

text \<open>
  Claim C7. When the other body is at the position of the current body, the inner callback
  skips the pair: it returns the bodies unchanged, no impulse applied. The only division of
  the pass has the divisor \<open>(distance * SCALE_FACTOR)\<^sup>2\<close> and is reached with a distance
  other than zero, so neither the callback nor the pass nor the hook ever ends in
  \<open>NonFinite\<close>.
\<close>

theorem coincident_pair_skipped:
  "(translation (st ob) = p \<longrightarrow> gravityPair c m p ob st = Inr st) \<and>
   (\<exists>st'. gravityPair c m p ob st = Inr st') \<and>
   (\<exists>st'. gravityPass g w st = Inr st') \<and>
   (\<exists>st'. useGravity w st = Inr st')"
proof -
  have a: "translation (st ob) = p \<longrightarrow> gravityPair c m p ob st = Inr st"
    by (simp add: gravityPair_coincident)
  have b: "\<exists>st'. useGravity w st = Inr st'"
    unfolding useGravity_def by (rule gravityPass_total)
  from a b gravityPair_total [of c m p ob st] gravityPass_total [of g w st]
  show ?thesis by blast
qed

theorem coincident_pair_skipped_witness:
  "translation (sceneStore 3) = translation (sceneStore 2) \<and>
   gravityPair 2 (mass (sceneStore 2)) (translation (sceneStore 2)) 3 sceneStore = Inr sceneStore \<and>
   gravityPass isSleeping twoPlanets sceneStore = Inr sceneStore"
proof -
  have "gravityPair 2 (mass (sceneStore 2)) (translation (sceneStore 2)) 3 sceneStore
        = Inr sceneStore"
    using coincident_pair_skipped [of sceneStore 3 "translation (sceneStore 2)" 2
        "mass (sceneStore 2)" isSleeping twoPlanets]
    by (simp add: sceneStore_at)
  moreover have "gravityPair 3 (mass (sceneStore 3)) (translation (sceneStore 3)) 2 sceneStore
        = Inr sceneStore"
    by (simp add: gravityPair_coincident sceneStore_at)
  ultimately show ?thesis
    by (simp add: twoPlanets_def gravityPass_def gravityBody_def gravityPair_def Let_def
        sceneStore_at scenePlanet_def)
qed

section \<open>Claims about the initial-state generator\<close>

text \<open>
  Claim C8, as stated, is about every position other than the origin. A position on the
  vertical axis has a zero cross product with the up vector, which \<open>normalize()\<close> leaves zero:
  at \<open>(0, 1, 0)\<close> the velocity is the zero vector, not one of magnitude
  \<open>sqrt(G * M_sun / r) * 20000\<close>.
\<close>

theorem spawn_velocity_on_axis_counterexample:
  "lengthV (Vector3 0 1 0) = 1 \<and>
   calculateInitialVelocity (Vector3 0 1 0) False = Inr (Vector3 0 0 0) \<and>
   lengthV (Vector3 0 0 0) \<noteq> sqrt (GRAVITATIONAL_CONSTANT * SUN_MASS / 1) * 20000"
proof -
  have l: "lengthV (Vector3 0 1 0) = 1" by (simp add: lengthV_def)
  have v: "calculateInitialVelocity (Vector3 0 1 0) False = Inr (Vector3 0 0 0)"
    by (simp add: calculateInitialVelocity_value l lengthV_def normalizeV_def crossVectors_def
        multiplyScalar_def)
  have "0 < sqrt (GRAVITATIONAL_CONSTANT * SUN_MASS)"
    using GM_pos by (simp only: real_sqrt_gt_zero)
  then have "0 < sqrt (GRAVITATIONAL_CONSTANT * SUN_MASS / 1) * 20000"
    by simp
  moreover have "lengthV (Vector3 0 0 0) = 0"
    by (simp add: lengthV_def)
  ultimately
  have "lengthV (Vector3 0 0 0) \<noteq> sqrt (GRAVITATIONAL_CONSTANT * SUN_MASS / 1) * 20000"
    by linarith
  with l v show ?thesis by blast
qed

text \<open>
  Claim C8, amended. For every position off the vertical axis (\<open>x\<close> or \<open>z\<close> is not zero),
  at distance \<open>r\<close> from the origin, \<open>calculateInitialVelocity\<close> returns a vector
  perpendicular to the position, of magnitude \<open>sqrt(G * M_sun / r) * 20000\<close>, times
  \<open>0.75\<close> for a respawn.
\<close>

theorem spawn_velocity_orbital:
  assumes "vx p \<noteq> 0 \<or> vz p \<noteq> 0"
  shows "\<exists>v. calculateInitialVelocity p resp = Inr v \<and> dot v p = 0 \<and>
             lengthV v = sqrt (GRAVITATIONAL_CONSTANT * SUN_MASS / lengthV p) * 20000
                           * (if resp then 0.75 else 1)"
proof -
  have nz: "lengthV p \<noteq> 0" using assms by (auto simp: lengthV_zero_iff)
  have hz: "lengthV (crossVectors p (Vector3 0 1 0)) \<noteq> 0"
    using assms by (simp add: lengthV_cross_up horizontalRadius_zero_iff)
  have "0 < lengthV p" using nz lengthV_nonneg [of p] by simp
  then have sp: "0 \<le> sqrt (GRAVITATIONAL_CONSTANT * SUN_MASS / lengthV p)"
    using GM_pos by simp
  show ?thesis
    unfolding calculateInitialVelocity_value [OF nz]
    using sp by (simp add: dot_multiplyScalar dot_normalizeV dot_cross_up
        lengthV_multiplyScalar lengthV_normalizeV [OF hz] abs_mult del: real_sqrt_ge_0_iff)
qed

theorem spawn_velocity_orbital_witness:
  "vx (Vector3 3 0 4) \<noteq> 0 \<and>
   (\<exists>v. calculateInitialVelocity (Vector3 3 0 4) True = Inr v \<and> dot v (Vector3 3 0 4) = 0 \<and>
        lengthV v = sqrt (GRAVITATIONAL_CONSTANT * SUN_MASS / lengthV (Vector3 3 0 4)) * 20000
                      * 0.75)"
  using spawn_velocity_orbital [of "Vector3 3 0 4" True]
  by simp

end
